theory Spec2Isabelle
  imports Main "HOL-Library.Sublist" "HOL-Library.Multiset"
begin

section \<open>Strings and numbers of the runtime\<close>

text \<open>
  A JavaScript string is a sequence of UTF-16 code units. The model has the strings whose
  code units are below 256, as \<^typ>\<open>string\<close>, one \<^typ>\<open>char\<close> per code unit. The case mappings
  of the runtime (\<open>toUpperCase\<close>, \<open>toLowerCase\<close>) follow the Unicode tables and are parameters
  of a run. Numbers that the program only uses as integers (day offsets, week numbers,
  millisecond time values, HTTP status codes) are unbounded integers.
\<close>

definition truthy :: "string option \<Rightarrow> bool" where
  \<comment> \<open>\<open>string | null\<close> in a boolean position: \<open>null\<close> and the empty string are falsy\<close>
  "truthy v = (case v of None \<Rightarrow> False | Some s \<Rightarrow> s \<noteq> [])"

definition startsWith :: "string \<Rightarrow> string \<Rightarrow> bool" where
  \<comment> \<open>\<open>s.startsWith(t)\<close>: the search string must fit and match at position 0\<close>
  "startsWith s t = (length t \<le> length s \<and> take (length t) s = t)"

fun includesStr :: "string \<Rightarrow> string \<Rightarrow> bool" where
  \<comment> \<open>\<open>s.includes(t)\<close>: \<open>t\<close> occurs at some position of \<open>s\<close>\<close>
  "includesStr [] t = (t = [])"
| "includesStr (c # cs) t = (startsWith (c # cs) t \<or> includesStr cs t)"

definition asciiLowerChar :: "char \<Rightarrow> char" where
  "asciiLowerChar c =
    (case map_of (zip ''ABCDEFGHIJKLMNOPQRSTUVWXYZ'' ''abcdefghijklmnopqrstuvwxyz'') c of
       None \<Rightarrow> c
     | Some l \<Rightarrow> l)"

definition asciiUpperChar :: "char \<Rightarrow> char" where
  "asciiUpperChar c =
    (case map_of (zip ''abcdefghijklmnopqrstuvwxyz'' ''ABCDEFGHIJKLMNOPQRSTUVWXYZ'') c of
       None \<Rightarrow> c
     | Some u \<Rightarrow> u)"

definition asciiLowerCase :: "string \<Rightarrow> string" where
  \<comment> \<open>what \<open>toLowerCase\<close> does on a string of ASCII characters\<close>
  "asciiLowerCase s = map asciiLowerChar s"

definition asciiUpperCase :: "string \<Rightarrow> string" where
  \<comment> \<open>what \<open>toUpperCase\<close> does on a string of ASCII characters\<close>
  "asciiUpperCase s = map asciiUpperChar s"

definition digitChar :: "nat \<Rightarrow> char" where
  "digitChar n = char_of (48 + n)"

fun showNat :: "nat \<Rightarrow> string" where
  "showNat n = (if n < 10 then [digitChar n] else showNat (n div 10) @ [digitChar (n mod 10)])"

declare showNat.simps [simp del]

definition showInt :: "int \<Rightarrow> string" where
  \<comment> \<open>\<open>String(n)\<close> for an integral number\<close>
  "showInt i = (if i < 0 then CHR ''-'' # showNat (nat (- i)) else showNat (nat i))"

definition padStart :: "nat \<Rightarrow> string \<Rightarrow> string" where
  \<comment> \<open>\<open>s.padStart(n, '0')\<close>\<close>
  "padStart n s = replicate (n - length s) (CHR ''0'') @ s"

definition isWhite :: "char \<Rightarrow> bool" where
  \<comment> \<open>the white space and line terminator code units below 256: TAB, LF, VT, FF, CR,
      space and the no-break space U+00A0\<close>
  "isWhite c = ((of_char c :: nat) \<in> {9, 10, 11, 12, 13, 32, 160})"

definition isDigit :: "char \<Rightarrow> bool" where
  "isDigit c = (48 \<le> (of_char c :: nat) \<and> (of_char c :: nat) \<le> 57)"

definition digitsVal :: "string \<Rightarrow> int" where
  "digitsVal ds = foldl (\<lambda>a c. 10 * a + (int (of_char c) - 48)) 0 ds"

definition skipSign :: "string \<Rightarrow> string" where
  "skipSign s = (case s of [] \<Rightarrow> [] | c # r \<Rightarrow> if c = CHR ''-'' \<or> c = CHR ''+'' then r else s)"

definition parseInt :: "string \<Rightarrow> int option" where
  \<comment> \<open>\<open>parseInt(s, 10)\<close>: leading white space is skipped, one sign is read, then the
      longest run of decimal digits; anything after it is ignored. \<open>None\<close> is \<open>NaN\<close>.\<close>
  "parseInt s =
    (let s1 = dropWhile isWhite s;
         sgn = (case s1 of [] \<Rightarrow> 1 | c # _ \<Rightarrow> if c = CHR ''-'' then - 1 else (1::int));
         ds = takeWhile isDigit (skipSign s1)
     in if ds = [] then None else Some (sgn * digitsVal ds))"

section \<open>Dates\<close>

text \<open>
  A \<open>Date\<close> is its time value: milliseconds since 1 January 1970 UTC. The calendar is the
  proleptic Gregorian one of ECMA-262; days are converted to civil dates and back with
  closed-form integer arithmetic (\<open>div\<close> and \<open>mod\<close> on \<^typ>\<open>int\<close> round down, as \<open>floor\<close>
  does). The time zone of the process is a parameter: the offset of local time from
  UTC, in milliseconds, as a function of the UTC instant and as a function of the local
  time value (ECMA-262's \<open>LocalTZA(t, true)\<close> and \<open>LocalTZA(t, false)\<close>).
\<close>

record timezone =
  tzaUTC :: "int \<Rightarrow> int"
  tzaLocal :: "int \<Rightarrow> int"

datatype error =
    MissingApiKey
  | HttpError nat string
  | FetchFailed string
  | JsonSyntaxError string
  | RangeError
  | FilesystemError string
  | TypeError string

definition msPerDay :: int where
  "msPerDay = 86400000"

definition EpochDay :: "int \<Rightarrow> int" where
  \<comment> \<open>ECMA-262 \<open>Day(t)\<close>\<close>
  "EpochDay t = t div msPerDay"

definition TimeWithinDay :: "int \<Rightarrow> int" where
  "TimeWithinDay t = t mod msPerDay"

definition civilFromDays :: "int \<Rightarrow> int \<times> int \<times> int" where
  \<comment> \<open>year, month (1 to 12) and day of the month of a day number\<close>
  "civilFromDays z =
    (let z' = z + 719468;
         era = z' div 146097;
         doe = z' mod 146097;
         yoe = (doe - doe div 1460 + doe div 36524 - doe div 146096) div 365;
         y = yoe + era * 400;
         doy = doe - (365 * yoe + yoe div 4 - yoe div 100);
         mp = (5 * doy + 2) div 153;
         d = doy - (153 * mp + 2) div 5 + 1;
         m = (if mp < 10 then mp + 3 else mp - 9)
     in (if m \<le> 2 then y + 1 else y, m, d))"

definition daysFromCivil :: "int \<Rightarrow> int \<Rightarrow> int \<Rightarrow> int" where
  \<comment> \<open>day number of year, month (1 to 12), day of the month; the day may lie outside
      the month and then counts on into the neighbouring months\<close>
  "daysFromCivil y m d =
    (let y' = (if m \<le> 2 then y - 1 else y);
         era = y' div 400;
         yoe = y' mod 400;
         doy = (153 * (if m > 2 then m - 3 else m + 9) + 2) div 5 + d - 1;
         doe = yoe * 365 + yoe div 4 - yoe div 100 + doy
     in era * 146097 + doe - 719468)"

definition YearFromTime :: "int \<Rightarrow> int" where
  "YearFromTime t = fst (civilFromDays (EpochDay t))"

definition MonthFromTime :: "int \<Rightarrow> int" where
  \<comment> \<open>0 is January, as in ECMA-262\<close>
  "MonthFromTime t = fst (snd (civilFromDays (EpochDay t))) - 1"

definition DateFromTime :: "int \<Rightarrow> int" where
  "DateFromTime t = snd (snd (civilFromDays (EpochDay t)))"

definition WeekDay :: "int \<Rightarrow> int" where
  \<comment> \<open>0 is Sunday; 1 January 1970 was a Thursday\<close>
  "WeekDay t = (EpochDay t + 4) mod 7"

definition MakeDay :: "int \<Rightarrow> int \<Rightarrow> int \<Rightarrow> int" where
  \<comment> \<open>for a month in 0 to 11: the first of that month, plus \<open>dt - 1\<close> days\<close>
  "MakeDay y m dt = daysFromCivil y (m + 1) 1 + dt - 1"

definition MakeDate :: "int \<Rightarrow> int \<Rightarrow> int" where
  "MakeDate dy tm = dy * msPerDay + tm"

definition TimeClip :: "int \<Rightarrow> int option" where
  \<comment> \<open>time values beyond 100 million days from the epoch are invalid (\<open>NaN\<close>)\<close>
  "TimeClip t = (if \<bar>t\<bar> > 8640000000000000 then None else Some t)"

definition LocalTime :: "timezone \<Rightarrow> int \<Rightarrow> int" where
  "LocalTime tz t = t + tzaUTC tz t"

definition UTC :: "timezone \<Rightarrow> int \<Rightarrow> int" where
  "UTC tz t = t - tzaLocal tz t"

definition getDate :: "timezone \<Rightarrow> int \<Rightarrow> int" where
  \<comment> \<open>\<open>Date.prototype.getDate\<close>: day of the month in local time\<close>
  "getDate tz t = DateFromTime (LocalTime tz t)"

definition setDate :: "timezone \<Rightarrow> int \<Rightarrow> int \<Rightarrow> int option" where
  \<comment> \<open>\<open>Date.prototype.setDate\<close>: replaces the day of the month of the local time and
      converts back to UTC\<close>
  "setDate tz t dt =
    (let lt = LocalTime tz t;
         newDate = MakeDate (MakeDay (YearFromTime lt) (MonthFromTime lt) dt) (TimeWithinDay lt)
     in TimeClip (UTC tz newDate))"

definition isoYear :: "int \<Rightarrow> string" where
  \<comment> \<open>four digits for the years 0 to 9999, a sign and six digits otherwise\<close>
  "isoYear y =
    (if 0 \<le> y \<and> y \<le> 9999 then padStart 4 (showNat (nat y))
     else (if y < 0 then CHR ''-'' else CHR ''+'') # padStart 6 (showNat (nat \<bar>y\<bar>)))"

definition isoDate :: "int \<Rightarrow> string" where
  \<comment> \<open>\<open>toISOString().split('T')[0]\<close> of a valid time value: the UTC calendar date\<close>
  "isoDate t =
    isoYear (YearFromTime t) @ ''-'' @ padStart 2 (showNat (nat (MonthFromTime t + 1)))
      @ ''-'' @ padStart 2 (showNat (nat (DateFromTime t)))"

definition computeTargetDate :: "timezone \<Rightarrow> int \<Rightarrow> int \<Rightarrow> error + string" where
  \<comment> \<open>\<open>now\<close> is the reading of \<open>new Date()\<close>. \<open>toISOString\<close> throws a \<open>RangeError\<close> on an
      invalid date.\<close>
  "computeTargetDate tz now daysOffset =
    (case setDate tz now (getDate tz now + daysOffset) of
       None \<Rightarrow> Inl RangeError
     | Some today \<Rightarrow> Inr (isoDate today))"

definition localTargetDate :: "timezone \<Rightarrow> int \<Rightarrow> int \<Rightarrow> string" where
  \<comment> \<open>The specification's wording, for comparison: today's calendar date in the local time
      zone, plus the offset in days, as \<open>YYYY-MM-DD\<close>.\<close>
  "localTargetDate tz now daysOffset =
    (case civilFromDays (EpochDay (LocalTime tz now) + daysOffset) of
       (y, m, d) \<Rightarrow> isoYear y @ ''-'' @ padStart 2 (showNat (nat m)) @ ''-'' @ padStart 2 (showNat (nat d)))"

definition fixedZone :: "int \<Rightarrow> timezone" where
  \<comment> \<open>a zone with a constant offset, given in minutes east of UTC\<close>
  "fixedZone minutes = \<lparr>tzaUTC = (\<lambda>_. minutes * 60000), tzaLocal = (\<lambda>_. minutes * 60000)\<rparr>"

section \<open>Data model\<close>

datatype league = CFB | NFL

text \<open>
  The Game type declares \<open>home\<close> and \<open>away\<close> as strings. The value \<open>fetchGames\<close> stores is a
  string, or, when the lookup object answers a code with a member it inherits from
  \<open>Object.prototype\<close>, that member (a function or an object).
\<close>

datatype teamValue = Named string | Inherited string

record Game =
  league :: league
  home :: teamValue
  away :: teamValue
  dateTime :: "string option"
  day :: "string option"
  week :: int
  channel :: "string option"

record NFLTeam =
  Key :: string
  FullName :: string

text \<open>
  An upstream game record, with the fields \<open>fetchGames\<close> reads. The text fields that the
  program tests for presence are optional (\<open>None\<close> is a missing or \<open>null\<close> field).
\<close>

record rawGame =
  HomeTeam :: string
  AwayTeam :: string
  HomeTeamName :: string
  AwayTeamName :: string
  DateTime :: "string option"
  Day :: "string option"
  Week :: int
  Channel :: "string option"

section \<open>Cache directory and network\<close>

text \<open>
  The cache directory is absent (\<open>None\<close>) or holds files, each with its content and its
  modification time in milliseconds. The state also logs the URL of every network request
  issued, in order. Directory creation and file writes in an existing directory are taken
  to succeed.
\<close>

record entry =
  content :: string
  mtimeMs :: int

record state =
  cache :: "(string \<rightharpoonup> entry) option"
  requests :: "string list"

record response =
  status :: nat
  body :: string

datatype netResult = Rejected string | Resolved response

text \<open>
  What the runtime supplies to one call of \<open>fetchWithCache\<close>: the JSON parser (\<open>Inl m\<close> is a
  \<open>SyntaxError\<close> with message \<open>m\<close>) and printer, the outcome of \<open>fetch(url)\<close> should a request
  be issued (a rejection with its message, or a response), the reading of \<open>Date.now()\<close>
  in the call for a cache file, and the modification time the file system stamps on that
  file when the call writes it.
\<close>

record 'j runtime =
  JSON_parse :: "string \<Rightarrow> string + 'j"
  JSON_stringify :: "'j \<Rightarrow> string"
  fetch :: "string \<Rightarrow> netResult"
  dateNow :: "string \<Rightarrow> int"
  mtimeOfWrite :: "string \<Rightarrow> int"

definition CACHE_TTL :: int where
  "CACHE_TTL = 1000 * 60 * 60 * 12"

definition ok :: "response \<Rightarrow> bool" where
  \<comment> \<open>\<open>res.ok\<close>: the status is in the range 200 to 299\<close>
  "ok res = (200 \<le> status res \<and> status res \<le> 299)"

fun message :: "error \<Rightarrow> string" where
  "message MissingApiKey = ''Missing API key in .env''"
| "message (HttpError st url) = ''HTTP '' @ showNat st @ '' for '' @ url"
| "message (FetchFailed m) = m"
| "message (JsonSyntaxError m) = m"
| "message RangeError = ''Invalid time value''"
| "message (FilesystemError m) = m"
| "message (TypeError m) = m"

definition ensureCacheDir :: "state \<Rightarrow> state" where
  "ensureCacheDir st = (case cache st of None \<Rightarrow> st\<lparr>cache := Some Map.empty\<rparr> | Some _ \<Rightarrow> st)"

definition clearCache :: "string \<Rightarrow> state \<Rightarrow> string \<times> state" where
  \<comment> \<open>returns the line printed\<close>
  "clearCache dir st =
    (case cache st of
       Some _ \<Rightarrow> (''Cache cleared: '' @ dir, st\<lparr>cache := None\<rparr>)
     | None \<Rightarrow> (''No cache to clear.'', st))"

definition lookupEntry :: "state \<Rightarrow> string \<Rightarrow> entry option" where
  \<comment> \<open>\<open>existsSync\<close>, \<open>statSync\<close> and \<open>readFileSync\<close> of a cache file\<close>
  "lookupEntry st cacheFile = (case cache st of None \<Rightarrow> None | Some fs \<Rightarrow> fs cacheFile)"

definition writeFileSync :: "string \<Rightarrow> string \<Rightarrow> int \<Rightarrow> state \<Rightarrow> error + state" where
  \<comment> \<open>creates or overwrites the file and stamps it; fails without the directory\<close>
  "writeFileSync cacheFile bytes t st =
    (case cache st of
       None \<Rightarrow> Inl (FilesystemError ''ENOENT'')
     | Some fs \<Rightarrow> Inr (st\<lparr>cache := Some (fs(cacheFile \<mapsto> \<lparr>content = bytes, mtimeMs = t\<rparr>))\<rparr>))"

definition readCached :: "'j runtime \<Rightarrow> entry \<Rightarrow> state \<Rightarrow> (error + 'j) \<times> state" where
  "readCached rt e st =
    (case JSON_parse rt (content e) of
       Inl m \<Rightarrow> (Inl (JsonSyntaxError m), st)
     | Inr data \<Rightarrow> (Inr data, st))"

definition fetchAndStore :: "'j runtime \<Rightarrow> string \<Rightarrow> string \<Rightarrow> state \<Rightarrow> (error + 'j) \<times> state" where
  \<comment> \<open>the part of \<open>fetchWithCache\<close> after the cache check\<close>
  "fetchAndStore rt url cacheFile st =
    (let st1 = st\<lparr>requests := requests st @ [url]\<rparr> in
     case fetch rt url of
       Rejected m \<Rightarrow> (Inl (FetchFailed m), st1)
     | Resolved res \<Rightarrow>
         if \<not> ok res then (Inl (HttpError (status res) url), st1)
         else (case JSON_parse rt (body res) of
                 Inl m \<Rightarrow> (Inl (JsonSyntaxError m), st1)
               | Inr data \<Rightarrow>
                   (case writeFileSync cacheFile (JSON_stringify rt data)
                           (mtimeOfWrite rt cacheFile) st1 of
                      Inl e \<Rightarrow> (Inl e, st1)
                    | Inr st2 \<Rightarrow> (Inr data, st2))))"

definition fetchWithCache :: "'j runtime \<Rightarrow> string \<Rightarrow> string \<Rightarrow> state \<Rightarrow> (error + 'j) \<times> state" where
  "fetchWithCache rt url cacheFile st0 =
    (let st = ensureCacheDir st0 in
     case lookupEntry st cacheFile of
       Some e \<Rightarrow>
         if dateNow rt cacheFile - mtimeMs e < CACHE_TTL then readCached rt e st
         else fetchAndStore rt url cacheFile st
     | None \<Rightarrow> fetchAndStore rt url cacheFile st)"

definition isFresh :: "state \<Rightarrow> string \<Rightarrow> int \<Rightarrow> bool" where
  \<comment> \<open>The specification's \<open>isFresh\<close>, for comparison with the branch \<open>fetchWithCache\<close> takes.\<close>
  "isFresh st cacheFile now =
    (case lookupEntry st cacheFile of None \<Rightarrow> False | Some e \<Rightarrow> now - mtimeMs e < CACHE_TTL)"

section \<open>Team lookup and normalization\<close>

text \<open>
  The lookup is a plain object, \<open>{}\<close>: its own properties are a finite map, and a read
  of a name it does not own goes on to \<open>Object.prototype\<close>. An assignment to \<open>__proto__\<close>
  runs the inherited setter, which ignores a string, so it creates no property.
\<close>

definition objectPrototypeNames :: "string list" where
  "objectPrototypeNames =
    [''constructor'', ''__defineGetter__'', ''__defineSetter__'', ''hasOwnProperty'',
     ''__lookupGetter__'', ''__lookupSetter__'', ''isPrototypeOf'', ''propertyIsEnumerable'',
     ''toString'', ''valueOf'', ''__proto__'', ''toLocaleString'']"

definition setProperty :: "(string \<rightharpoonup> string) \<Rightarrow> string \<Rightarrow> string \<Rightarrow> (string \<rightharpoonup> string)" where
  \<comment> \<open>\<open>map[k] = v\<close> on the plain object\<close>
  "setProperty m k v = (if k = ''__proto__'' then m else m(k \<mapsto> v))"

definition teamLookup :: "(string \<Rightarrow> string) \<Rightarrow> NFLTeam list \<Rightarrow> (string \<rightharpoonup> string)" where
  \<comment> \<open>the \<open>reduce\<close> of \<open>fetchNFLTeams\<close>; the first argument is the runtime's \<open>toUpperCase\<close>\<close>
  "teamLookup upper teams = foldl (\<lambda>m t. setProperty m (upper (Key t)) (FullName t)) Map.empty teams"

definition orNull :: "string option \<Rightarrow> string option" where
  \<comment> \<open>\<open>v || null\<close>\<close>
  "orNull v = (if truthy v then v else None)"

definition resolveTeam :: "(string \<rightharpoonup> string) option \<Rightarrow> string \<Rightarrow> teamValue" where
  \<comment> \<open>\<open>nflTeams?.[code] || code\<close>: an own property that is a non-empty string, else an
      inherited member (always truthy), else the code\<close>
  "resolveTeam nflTeams code =
    (case nflTeams of
       None \<Rightarrow> Named code
     | Some m \<Rightarrow>
         (case m code of
            Some n \<Rightarrow> if n = [] then Named code else Named n
          | None \<Rightarrow> if code \<in> set objectPrototypeNames then Inherited code else Named code))"

definition toGame :: "league \<Rightarrow> (string \<rightharpoonup> string) option \<Rightarrow> rawGame \<Rightarrow> Game" where
  \<comment> \<open>the function mapped over the records in \<open>fetchGames\<close>\<close>
  "toGame lg nflTeams g =
    \<lparr>league = lg,
     home = (if lg = NFL then resolveTeam nflTeams (HomeTeam g) else Named (HomeTeamName g)),
     away = (if lg = NFL then resolveTeam nflTeams (AwayTeam g) else Named (AwayTeamName g)),
     dateTime = orNull (DateTime g),
     day = orNull (Day g),
     week = Week g,
     channel = orNull (Channel g)\<rparr>"

section \<open>Filters, order and rendering\<close>

definition startsWithDate :: "string option \<Rightarrow> string \<Rightarrow> bool" where
  \<comment> \<open>\<open>v && v.startsWith(targetDate)\<close>\<close>
  "startsWithDate v targetDate =
    (case v of None \<Rightarrow> False | Some s \<Rightarrow> s \<noteq> [] \<and> startsWith s targetDate)"

definition matchesDate :: "string \<Rightarrow> Game \<Rightarrow> bool" where
  "matchesDate targetDate g =
    (startsWithDate (dateTime g) targetDate \<or> startsWithDate (day g) targetDate)"

definition specMatchesDate :: "string \<Rightarrow> Game \<Rightarrow> bool" where
  \<comment> \<open>The specification's wording of the date filter, for comparison: the day counts only
      when the timestamp is absent.\<close>
  "specMatchesDate targetDate g =
    (startsWithDate (dateTime g) targetDate
     \<or> (\<not> truthy (dateTime g) \<and> startsWithDate (day g) targetDate))"

definition lowerCaseOf :: "(string \<Rightarrow> string) \<Rightarrow> string \<Rightarrow> teamValue \<Rightarrow> error + string" where
  \<comment> \<open>\<open>g.home.toLowerCase()\<close>: an inherited member has no such method, and the call throws
      a \<open>TypeError\<close>; \<open>expr\<close> is the text of the receiver, which the message quotes\<close>
  "lowerCaseOf lower expr v =
    (case v of
       Named s \<Rightarrow> Inr (lower s)
     | Inherited _ \<Rightarrow> Inl (TypeError (expr @ ''.toLowerCase is not a function'')))"

definition matchesTeam :: "(string \<Rightarrow> string) \<Rightarrow> string \<Rightarrow> Game \<Rightarrow> error + bool" where
  \<comment> \<open>the callback of the team filter; \<open>||\<close> reads \<open>away\<close> only when \<open>home\<close> does not match\<close>
  "matchesTeam lower search g =
    (case lowerCaseOf lower ''g.home'' (home g) of
       Inl e \<Rightarrow> Inl e
     | Inr h \<Rightarrow>
         if includesStr h search then Inr True
         else (case lowerCaseOf lower ''g.away'' (away g) of
                 Inl e \<Rightarrow> Inl e
               | Inr a \<Rightarrow> Inr (includesStr a search)))"

fun filterByTeam :: "(string \<Rightarrow> string) \<Rightarrow> string \<Rightarrow> Game list \<Rightarrow> error + Game list" where
  \<comment> \<open>\<open>combined.filter\<close> with that callback: the first throw ends it\<close>
  "filterByTeam lower search [] = Inr []"
| "filterByTeam lower search (g # gs) =
     (case matchesTeam lower search g of
        Inl e \<Rightarrow> Inl e
      | Inr keep \<Rightarrow>
          (case filterByTeam lower search gs of
             Inl e \<Rightarrow> Inl e
           | Inr rest \<Rightarrow> Inr (if keep then g # rest else rest)))"

definition timeSource :: "Game \<Rightarrow> string option" where
  \<comment> \<open>\<open>a.dateTime || a.day\<close>, with \<open>None\<close> where the source goes on to \<open>0\<close>\<close>
  "timeSource g = (if truthy (dateTime g) then dateTime g else if truthy (day g) then day g else None)"

definition effectiveTime :: "(string \<Rightarrow> int option) \<Rightarrow> Game \<Rightarrow> int option" where
  \<comment> \<open>\<open>new Date(a.dateTime || a.day || 0).getTime()\<close>; \<open>dateParse\<close> is the runtime's
      reading of a date string as a time value, \<open>None\<close> is \<open>NaN\<close>\<close>
  "effectiveTime dateParse g = (case timeSource g of None \<Rightarrow> Some 0 | Some s \<Rightarrow> dateParse s)"

definition compareGames :: "(string \<Rightarrow> int option) \<Rightarrow> Game \<Rightarrow> Game \<Rightarrow> int option" where
  \<comment> \<open>the comparator passed to \<open>sort\<close>; \<open>None\<close> is \<open>NaN\<close>\<close>
  "compareGames dateParse a b =
    (if week a \<noteq> week b then Some (week a - week b)
     else (case (effectiveTime dateParse a, effectiveTime dateParse b) of
             (Some x, Some y) \<Rightarrow> Some (x - y)
           | _ \<Rightarrow> None))"

text \<open>
  \<open>Array.prototype.sort\<close> is stable, and reads a \<open>NaN\<close> from the comparator as 0. For a
  consistent comparator its result is fixed by ECMA-262: the one stable ordering, which
  insertion from the right computes. \<open>compareGames\<close> is a consistent comparator on Games
  whose effective times are all numbers (it compares the pairs of week and time). When
  some effective time is \<open>NaN\<close> the comparator need not be consistent, and ECMA-262 leaves
  the order to the engine: there \<open>sortGames\<close> returns what the engine returns, a parameter.
\<close>

definition sortsAfter :: "('a \<Rightarrow> 'a \<Rightarrow> int option) \<Rightarrow> 'a \<Rightarrow> 'a \<Rightarrow> bool" where
  "sortsAfter cmp x y = (case cmp x y of None \<Rightarrow> False | Some v \<Rightarrow> v > 0)"

fun insertSorted :: "('a \<Rightarrow> 'a \<Rightarrow> int option) \<Rightarrow> 'a \<Rightarrow> 'a list \<Rightarrow> 'a list" where
  "insertSorted cmp x [] = [x]"
| "insertSorted cmp x (y # ys) =
     (if sortsAfter cmp x y then y # insertSorted cmp x ys else x # y # ys)"

definition stableSort :: "('a \<Rightarrow> 'a \<Rightarrow> int option) \<Rightarrow> 'a list \<Rightarrow> 'a list" where
  "stableSort cmp xs = foldr (insertSorted cmp) xs []"

definition timesParse :: "(string \<Rightarrow> int option) \<Rightarrow> Game list \<Rightarrow> bool" where
  \<comment> \<open>no effective time is \<open>NaN\<close>\<close>
  "timesParse dateParse gs = list_all (\<lambda>g. effectiveTime dateParse g \<noteq> None) gs"

definition sortGames :: "(Game list \<Rightarrow> Game list) \<Rightarrow> (string \<Rightarrow> int option) \<Rightarrow> Game list \<Rightarrow> Game list" where
  \<comment> \<open>\<open>combined.sort(...)\<close> with the comparator of \<open>main\<close>; \<open>engine\<close> is the engine's
      result on a list with a \<open>NaN\<close> effective time\<close>
  "sortGames engine dateParse gs =
    (if timesParse dateParse gs then stableSort (compareGames dateParse) gs else engine gs)"

definition hasTimeInfo :: "Game \<Rightarrow> bool" where
  "hasTimeInfo g = (truthy (dateTime g) \<or> truthy (day g))"

definition weekThenTime :: "(string \<Rightarrow> int option) \<Rightarrow> Game \<Rightarrow> Game \<Rightarrow> bool" where
  \<comment> \<open>The order the specification names: week ascending, then effective time ascending.\<close>
  "weekThenTime dp a b =
    (week a < week b
     \<or> (week a = week b
        \<and> (case (effectiveTime dp a, effectiveTime dp b) of
             (Some x, Some y) \<Rightarrow> x \<le> y
           | _ \<Rightarrow> False)))"

definition weekdayShort :: "int \<Rightarrow> string" where
  \<comment> \<open>the short \<open>en-US\<close> weekday name, upper-cased\<close>
  "weekdayShort n =
    (if n = 0 then ''SUN'' else if n = 1 then ''MON'' else if n = 2 then ''TUE''
     else if n = 3 then ''WED'' else if n = 4 then ''THU'' else if n = 5 then ''FRI''
     else ''SAT'')"

definition formatDate :: "timezone \<Rightarrow> (string \<Rightarrow> int option) \<Rightarrow> string \<Rightarrow> string" where
  "formatDate tz dateParse dateString =
    (case dateParse dateString of
       None \<Rightarrow> ''NaN-NaN-NaN INVALID DATE''
     | Some t \<Rightarrow>
         (let d = LocalTime tz t in
          showInt (YearFromTime d) @ ''-'' @ padStart 2 (showInt (MonthFromTime d + 1))
            @ ''-'' @ padStart 2 (showInt (DateFromTime d)) @ '' '' @ weekdayShort (WeekDay d)))"

definition leagueTag :: "league \<Rightarrow> string" where
  "leagueTag lg = (case lg of CFB \<Rightarrow> ''CFB'' | NFL \<Rightarrow> ''NFL'')"

definition dquote :: string where
  "dquote = [CHR 0x22]"

definition showTeam :: "teamValue \<Rightarrow> string" where
  \<comment> \<open>a home or away value in a template literal: a string as it is, an inherited
      function as its source text, \<open>Object.prototype\<close> itself as \<open>[object Object]\<close>\<close>
  "showTeam v =
    (case v of
       Named s \<Rightarrow> s
     | Inherited n \<Rightarrow>
         if n = ''__proto__'' then ''[object Object]''
         else ''function '' @ (if n = ''constructor'' then ''Object'' else n)
                @ ''() { [native code] }'')"

section \<open>The command\<close>

record opts =
  days :: string
  team :: string
  clearCacheFlag :: bool

text \<open>
  The environment of one run. \<open>asTeams\<close> and \<open>asRecords\<close> read a parsed JSON value at the
  types the program declares for it. \<open>toUpperCase\<close> and \<open>toLowerCase\<close> are the runtime's case
  mappings, \<open>engineSort\<close> is what the engine's sort returns on a list with a \<open>NaN\<close>
  effective time. \<open>todayAtFilter\<close> and \<open>todayAtLabel\<close> are the readings of
  \<open>new Date()\<close> in the two calls of \<open>computeTargetDate\<close>. \<open>toLocaleTimeString\<close> renders a time
  value as hour and minute in the default locale. The two schedule fetches run
  concurrently on different cache files and URLs; their effects on the state are
  independent, and \<open>nflSettlesFirst\<close> tells which rejection \<open>Promise.all\<close> sees first when
  both fail.
\<close>

record 'j world =
  rt :: "'j runtime"
  API_KEY :: "string option"
  CACHE_DIR :: string
  zone :: timezone
  todayAtFilter :: int
  todayAtLabel :: int
  dateParse :: "string \<Rightarrow> int option"
  toLocaleTimeString :: "int option \<Rightarrow> string"
  asTeams :: "'j \<Rightarrow> NFLTeam list"
  asRecords :: "'j \<Rightarrow> rawGame list"
  nflSettlesFirst :: bool
  toUpperCase :: "string \<Rightarrow> string"
  toLowerCase :: "string \<Rightarrow> string"
  engineSort :: "Game list \<Rightarrow> Game list"

record outcome =
  stdout :: "string list"
  stderr :: "string list"
  exitCode :: nat
  final :: state

definition CFB_URL :: "string \<Rightarrow> string" where
  "CFB_URL key = ''https://api.sportsdata.io/v3/cfb/scores/json/Games/2025?key='' @ key"

definition NFL_URL :: "string \<Rightarrow> string" where
  "NFL_URL key = ''https://api.sportsdata.io/v3/nfl/scores/json/Schedules/2025?key='' @ key"

definition NFL_TEAMS_URL :: "string \<Rightarrow> string" where
  "NFL_TEAMS_URL key = ''https://api.sportsdata.io/v3/nfl/scores/json/Teams?key='' @ key"

definition fetchNFLTeams :: "'j world \<Rightarrow> string \<Rightarrow> state \<Rightarrow> (error + (string \<rightharpoonup> string)) \<times> state" where
  "fetchNFLTeams w key st =
    (case fetchWithCache (rt w) (NFL_TEAMS_URL key) ''nfl_teams.json'' st of
       (Inl e, st') \<Rightarrow> (Inl e, st')
     | (Inr teams, st') \<Rightarrow> (Inr (teamLookup (toUpperCase w) (asTeams w teams)), st'))"

definition fetchGames ::
  "'j world \<Rightarrow> string \<Rightarrow> league \<Rightarrow> string \<Rightarrow> (string \<rightharpoonup> string) option \<Rightarrow> state
     \<Rightarrow> (error + Game list) \<times> state" where
  "fetchGames w url lg cacheFile nflTeams st =
    (case fetchWithCache (rt w) url cacheFile st of
       (Inl e, st') \<Rightarrow> (Inl e, st')
     | (Inr data, st') \<Rightarrow> (Inr (map (toGame lg nflTeams) (asRecords w data)), st'))"

definition promiseAll :: "bool \<Rightarrow> error + 'a \<Rightarrow> error + 'b \<Rightarrow> error + 'a \<times> 'b" where
  \<comment> \<open>\<open>Promise.all\<close> of two promises: rejects with the rejection that comes first\<close>
  "promiseAll secondFirst r1 r2 =
    (case r1 of
       Inl e1 \<Rightarrow> (case r2 of Inl e2 \<Rightarrow> Inl (if secondFirst then e2 else e1) | Inr _ \<Rightarrow> Inl e1)
     | Inr a \<Rightarrow> (case r2 of Inl e2 \<Rightarrow> Inl e2 | Inr b \<Rightarrow> Inr (a, b)))"

definition fetchAll :: "'j world \<Rightarrow> state \<Rightarrow> (error + Game list) \<times> state" where
  \<comment> \<open>the \<open>try\<close> block of \<open>main\<close> up to \<open>combined\<close>; an unset or empty key is falsy\<close>
  "fetchAll w st =
    (case API_KEY w of
       None \<Rightarrow> (Inl MissingApiKey, st)
     | Some key \<Rightarrow>
         if key = [] then (Inl MissingApiKey, st)
         else
           (case fetchNFLTeams w key st of
              (Inl e, st1) \<Rightarrow> (Inl e, st1)
            | (Inr nflTeams, st1) \<Rightarrow>
                (case fetchGames w (CFB_URL key) CFB ''cfb_games.json'' None st1 of
                   (r1, st2) \<Rightarrow>
                     (case fetchGames w (NFL_URL key) NFL ''nfl_schedules.json'' (Some nflTeams) st2 of
                        (r2, st3) \<Rightarrow>
                          (case promiseAll (nflSettlesFirst w) r1 r2 of
                             Inl e \<Rightarrow> (Inl e, st3)
                           | Inr (cfbGames, nflGames) \<Rightarrow> (Inr (cfbGames @ nflGames), st3))))))"

definition chooseOffset :: "opts \<Rightarrow> unit + int option" where
  \<comment> \<open>the offset selection at the head of \<open>main\<close>; \<open>Inl ()\<close> is the usage error\<close>
  "chooseOffset opt =
    (if days opt = [] \<and> team opt = [] then Inr (Some 0)
     else if days opt \<noteq> [] then
       (case parseInt (days opt) of None \<Rightarrow> Inl () | Some n \<Rightarrow> Inr (Some n))
     else Inr None)"

definition selectGames :: "'j world \<Rightarrow> opts \<Rightarrow> int option \<Rightarrow> Game list \<Rightarrow> error + Game list" where
  \<comment> \<open>the date filter, then the team filter\<close>
  "selectGames w opt offset combined =
    (case (case offset of
             None \<Rightarrow> Inr combined
           | Some n \<Rightarrow>
               (case computeTargetDate (zone w) (todayAtFilter w) n of
                  Inl e \<Rightarrow> Inl e
                | Inr targetDate \<Rightarrow> Inr (filter (matchesDate targetDate) combined))) of
       Inl e \<Rightarrow> Inl e
     | Inr byDate \<Rightarrow>
         if team opt \<noteq> [] then filterByTeam (toLowerCase w) (toLowerCase w (team opt)) byDate
         else Inr byDate)"

definition noGamesLine :: "opts \<Rightarrow> int option \<Rightarrow> string" where
  "noGamesLine opt offset =
    ''No games found''
      @ (if team opt \<noteq> [] then '' for team matching '' @ dquote @ team opt @ dquote else [])
      @ (case offset of None \<Rightarrow> [] | Some n \<Rightarrow> '' on day offset '' @ showInt n)
      @ ''.''"

definition headerLabel :: "'j world \<Rightarrow> opts \<Rightarrow> int option \<Rightarrow> error + string" where
  "headerLabel w opt offset =
    (case offset of
       Some n \<Rightarrow>
         (case computeTargetDate (zone w) (todayAtLabel w) n of
            Inl e \<Rightarrow> Inl e
          | Inr targetDate \<Rightarrow> Inr (''Games for '' @ targetDate))
     | None \<Rightarrow>
         Inr (if team opt \<noteq> [] then ''All games for teams matching '' @ dquote @ team opt @ dquote
              else ''Games''))"

definition formatTime :: "'j world \<Rightarrow> string \<Rightarrow> string" where
  "formatTime w dateString = toLocaleTimeString w (dateParse w dateString)"

definition gameRow :: "'j world \<Rightarrow> Game \<Rightarrow> string" where
  "gameRow w g =
    (let dateLabel =
           (if truthy (dateTime g) then formatDate (zone w) (dateParse w) (the (dateTime g))
            else if truthy (day g) then formatDate (zone w) (dateParse w) (the (day g))
            else ''WEEK '' @ showInt (week g) @ '' (TBD)'');
         start =
           (if truthy (dateTime g) then formatTime w (the (dateTime g)) else ''TBD'')
     in ''['' @ dateLabel @ '']['' @ leagueTag (league g) @ ''] '' @ showTeam (away g) @ '' @ '' @ showTeam (home g)
          @ '' - '' @ start @ '' - Channel: ''
          @ (if truthy (channel g) then the (channel g) else ''N/A''))"

definition report :: "'j world \<Rightarrow> opts \<Rightarrow> int option \<Rightarrow> Game list \<Rightarrow> error + string list" where
  \<comment> \<open>the \<open>try\<close> block of \<open>main\<close> from the filters on: the lines printed, one per
      \<open>console.log\<close>\<close>
  "report w opt offset combined =
    (case selectGames w opt offset combined of
       Inl e \<Rightarrow> Inl e
     | Inr selected \<Rightarrow>
         if selected = [] then Inr [noGamesLine opt offset]
         else
           (case headerLabel w opt offset of
              Inl e \<Rightarrow> Inl e
            | Inr label \<Rightarrow>
                Inr ((label @ [CHR '':'', CHR 0x0A])
                     # map (gameRow w) (sortGames (engineSort w) (dateParse w) selected))))"

definition caught :: "error \<Rightarrow> state \<Rightarrow> outcome" where
  \<comment> \<open>the \<open>catch\<close> of \<open>main\<close>: one line on the error stream; the process then ends normally\<close>
  "caught e st = \<lparr>stdout = [], stderr = [''Error: '' @ message e], exitCode = 0, final = st\<rparr>"

definition usageLine :: string where
  "usageLine = ''Invalid value for --days. Use numbers like 0, +1, -1.''"

definition tryBlock :: "'j world \<Rightarrow> opts \<Rightarrow> int option \<Rightarrow> state \<Rightarrow> (error + string list) \<times> state" where
  \<comment> \<open>the body of the \<open>try\<close> of \<open>main\<close>: an error thrown, or the lines printed\<close>
  "tryBlock w opt offset st =
    (case fetchAll w st of
       (Inl e, st') \<Rightarrow> (Inl e, st')
     | (Inr combined, st') \<Rightarrow> (report w opt offset combined, st'))"

definition main :: "'j world \<Rightarrow> opts \<Rightarrow> state \<Rightarrow> outcome" where
  "main w opt st =
    (if clearCacheFlag opt then
       (case clearCache (CACHE_DIR w) st of
          (line, st') \<Rightarrow> \<lparr>stdout = [line], stderr = [], exitCode = 0, final = st'\<rparr>)
     else
       (case chooseOffset opt of
          Inl _ \<Rightarrow> \<lparr>stdout = [], stderr = [usageLine], exitCode = 1, final = st\<rparr>
        | Inr offset \<Rightarrow>
            (case tryBlock w opt offset st of
               (Inl e, st') \<Rightarrow> caught e st'
             | (Inr printed, st') \<Rightarrow>
                 \<lparr>stdout = printed, stderr = [], exitCode = 0, final = st'\<rparr>)))"

definition isIntegerText :: "string \<Rightarrow> bool" where
  \<comment> \<open>The specification's "integer value", for comparison: an optional sign followed by
      decimal digits and nothing else.\<close>
  "isIntegerText s =
    (case s of
       [] \<Rightarrow> False
     | c # r \<Rightarrow>
         if c = CHR ''+'' \<or> c = CHR ''-'' then r \<noteq> [] \<and> list_all isDigit r
         else list_all isDigit s)"

section \<open>A small environment for concrete runs\<close>

text \<open>
  A runtime whose JSON values are the JSON texts themselves: parsing accepts every
  non-empty text and printing gives it back. The network answer and the two clock readings
  are the arguments.
\<close>

definition demoRuntime :: "netResult \<Rightarrow> int \<Rightarrow> int \<Rightarrow> string runtime" where
  "demoRuntime res now written =
    \<lparr>JSON_parse = (\<lambda>s. if s = [] then Inl ''Unexpected end of JSON input'' else Inr s),
     JSON_stringify = (\<lambda>d. d),
     fetch = (\<lambda>_. res),
     dateNow = (\<lambda>_. now),
     mtimeOfWrite = (\<lambda>_. written)\<rparr>"

definition emptyState :: state where
  "emptyState = \<lparr>cache = None, requests = []\<rparr>"


definition demoRecord :: rawGame where
  "demoRecord =
    \<lparr>HomeTeam = ''PHI'', AwayTeam = ''XYZ'', HomeTeamName = ''Temple'', AwayTeamName = ''Navy'',
     DateTime = Some ''2025-09-02T20:20:00'', Day = Some ''2025-09-02T00:00:00'',
     Week = 1, Channel = Some ''NBC''\<rparr>"

definition demoTeams :: "NFLTeam list" where
  "demoTeams = [\<lparr>Key = ''phi'', FullName = ''Philadelphia Eagles''\<rparr>]"

definition demoWorld :: "string option \<Rightarrow> netResult \<Rightarrow> string world" where
  "demoWorld key res =
    \<lparr>rt = demoRuntime res 1756774800000 1756774800000,
     API_KEY = key,
     CACHE_DIR = ''/home/u/.cache/games'',
     zone = fixedZone 0,
     todayAtFilter = 1756774800000,
     todayAtLabel = 1756774800000,
     dateParse = (\<lambda>s. if s = ''2025-09-02T20:20:00'' then Some 1756844400000 else None),
     toLocaleTimeString = (\<lambda>t. if t = Some 1756844400000 then ''08:20 PM'' else ''Invalid Date''),
     asTeams = (\<lambda>_. demoTeams),
     asRecords = (\<lambda>_. [demoRecord]),
     nflSettlesFirst = False,
     toUpperCase = asciiUpperCase,
     toLowerCase = asciiLowerCase,
     engineSort = (\<lambda>gs. gs)\<rparr>"

definition laterDayGame :: Game where
  "laterDayGame =
    \<lparr>league = NFL, home = Named ''Philadelphia Eagles'', away = Named ''Dallas Cowboys'',
     dateTime = Some ''2025-09-02T00:30:00'', day = Some ''2025-09-01T00:00:00'',
     week = 1, channel = None\<rparr>"

definition weekOneGame :: Game where
  "weekOneGame =
    \<lparr>league = CFB, home = Named ''Temple'', away = Named ''Navy'',
     dateTime = Some ''2025-09-01T13:00:00Z'', day = None, week = 1, channel = None\<rparr>"

definition weekTwoGame :: Game where
  "weekTwoGame =
    \<lparr>league = CFB, home = Named ''Army'', away = Named ''Rice'',
     dateTime = Some ''2025-09-08T13:00:00Z'', day = None, week = 2, channel = None\<rparr>"

definition undatedGame :: Game where
  "undatedGame =
    \<lparr>league = CFB, home = Named ''Ohio'', away = Named ''Kent'',
     dateTime = None, day = None, week = 2, channel = None\<rparr>"

definition onlineWorld :: "string world" where
  "onlineWorld = demoWorld (Some ''k'') (Resolved \<lparr>status = 200, body = ''[]''\<rparr>)"

definition fieldlessGame :: Game where
  "fieldlessGame =
    \<lparr>league = NFL, home = Named ''Philadelphia Eagles'', away = Named ''New York Giants'',
     dateTime = None, day = None, week = 3, channel = None\<rparr>"

definition oldGame :: Game where
  "oldGame =
    \<lparr>league = CFB, home = Named ''Yale'', away = Named ''Brown'',
     dateTime = Some ''1969-12-31T00:00:00Z'', day = None, week = 2, channel = None\<rparr>"

definition lateGame :: Game where
  "lateGame =
    \<lparr>league = CFB, home = Named ''Iowa'', away = Named ''Utah'',
     dateTime = Some ''2025-09-06T19:00:00Z'', day = None, week = 2, channel = None\<rparr>"

definition garbledGame :: Game where
  "garbledGame =
    \<lparr>league = CFB, home = Named ''Duke'', away = Named ''Elon'',
     dateTime = Some ''garbage'', day = None, week = 2, channel = None\<rparr>"

definition earlyGame :: Game where
  "earlyGame =
    \<lparr>league = CFB, home = Named ''Rice'', away = Named ''Troy'',
     dateTime = Some ''2025-09-06T13:00:00Z'', day = None, week = 2, channel = None\<rparr>"

definition isoParse :: "string \<Rightarrow> int option" where
  \<comment> \<open>the runtime's reading of the date strings used below; every other string here is
      not a date\<close>
  "isoParse s =
    (if s = ''1969-12-31T00:00:00Z'' then Some (- 86400000)
     else if s = ''2025-09-06T19:00:00Z'' then Some 1757185200000
     else if s = ''2025-09-06T13:00:00Z'' then Some 1757163600000
     else if s = ''2025-09-01T13:00:00Z'' then Some 1756731600000
     else if s = ''2025-09-08T13:00:00Z'' then Some 1757336400000
     else None)"

definition inheritedRecord :: rawGame where
  "inheritedRecord =
    \<lparr>HomeTeam = ''PHI'', AwayTeam = ''constructor'', HomeTeamName = ''Temple'',
     AwayTeamName = ''Navy'', DateTime = Some ''2025-09-02T20:20:00'',
     Day = Some ''2025-09-02T00:00:00'', Week = 1, Channel = Some ''NBC''\<rparr>"

definition inheritedWorld :: "string world" where
  "inheritedWorld = onlineWorld\<lparr>asRecords := (\<lambda>_. [inheritedRecord])\<rparr>"

definition otherDayWorld :: "string world" where
  \<comment> \<open>the same environment on 1 January 1970, a day without Games\<close>
  "otherDayWorld = onlineWorld\<lparr>todayAtFilter := 0, todayAtLabel := 0\<rparr>"

section \<open>The target date of the date filter\<close>

lemma calendar_examples:
  "civilFromDays 0 = (1970, 1, 1)"
  "civilFromDays 20332 = (2025, 9, 1)"
  "daysFromCivil 2025 9 1 = 20332"
  "civilFromDays (daysFromCivil 2024 2 29) = (2024, 2, 29)"
  "civilFromDays (daysFromCivil 2025 2 29) = (2025, 3, 1)"
  "civilFromDays (- 1) = (1969, 12, 31)"
  "WeekDay 1756774800000 = 2"
  "EpochDay 1756774800000 = 20333"
  "EpochDay (LocalTime (fixedZone (- 300)) 1756774800000) = 20332"
  by code_simp+

text \<open>
  Claim C1. The target date is meant to be today plus the offset as a calendar date of the
  local time zone. \<open>computeTargetDate\<close> does the day arithmetic on the local date but
  renders the result with \<open>toISOString\<close>, which is in UTC. At 20:00 local time on
  1 September 2025 in a zone five hours west of UTC (01:00 UTC on 2 September, time value
  1756774800000) and offset 0 the function returns 2025-09-02, while the local calendar
  date is 2025-09-01.
\<close>

theorem computeTargetDate_utc_rendering:
  "computeTargetDate (fixedZone (- 300)) 1756774800000 0 = Inr ''2025-09-02''
   \<and> localTargetDate (fixedZone (- 300)) 1756774800000 0 = ''2025-09-01''"
  by code_simp

section \<open>The cache\<close>

lemma lookupEntry_ensureCacheDir [simp]:
  "lookupEntry (ensureCacheDir st) f = lookupEntry st f"
  by (simp add: lookupEntry_def ensureCacheDir_def split: option.splits)

lemma requests_ensureCacheDir [simp]: "requests (ensureCacheDir st) = requests st"
  by (simp add: ensureCacheDir_def split: option.splits)

lemma ensureCacheDir_present: "cache st = Some fs \<Longrightarrow> ensureCacheDir st = st"
  by (simp add: ensureCacheDir_def)

lemma cache_ensureCacheDir: "cache (ensureCacheDir st) \<noteq> None"
  by (simp add: ensureCacheDir_def split: option.splits)

lemma lookupEntry_Some_cache: "lookupEntry st f = Some e \<Longrightarrow> \<exists>fs. cache st = Some fs \<and> fs f = Some e"
  by (simp add: lookupEntry_def split: option.splits)

lemma fetchWithCache_fresh:
  assumes "lookupEntry st f = Some e" and "dateNow env f - mtimeMs e < CACHE_TTL"
  shows "fetchWithCache env url f st = readCached env e st"
proof -
  from assms(1) obtain fs where "cache st = Some fs" using lookupEntry_Some_cache by blast
  then have "ensureCacheDir st = st" by (rule ensureCacheDir_present)
  with assms show ?thesis by (simp add: fetchWithCache_def Let_def)
qed

lemma fetchWithCache_not_fresh:
  assumes "\<not> isFresh st f (dateNow env f)"
  shows "fetchWithCache env url f st = fetchAndStore env url f (ensureCacheDir st)"
  using assms by (simp add: fetchWithCache_def isFresh_def Let_def split: option.splits)

lemma requests_fetchAndStore:
  "requests (snd (fetchAndStore env url f s)) = requests s @ [url]"
  by (simp add: fetchAndStore_def Let_def writeFileSync_def split: netResult.splits sum.splits option.splits)

lemma requests_readCached: "snd (readCached env e s) = s"
  by (simp add: readCached_def split: sum.splits)

lemma fetchAndStore_success:
  assumes "cache s = Some fs" and "fetch env url = Resolved r" and "ok r"
    and "JSON_parse env (body r) = Inr d"
  shows "fetchAndStore env url f s =
    (Inr d, s\<lparr>requests := requests s @ [url],
              cache := Some (fs(f \<mapsto> \<lparr>content = JSON_stringify env d, mtimeMs = mtimeOfWrite env f\<rparr>))\<rparr>)"
  using assms by (simp add: fetchAndStore_def Let_def writeFileSync_def)

lemma fetchAndStore_failure_keeps_cache:
  assumes "fetch env url = Rejected m \<or> (\<exists>r. fetch env url = Resolved r \<and> (\<not> ok r \<or> (\<exists>m. JSON_parse env (body r) = Inl m)))"
  shows "cache (snd (fetchAndStore env url f s)) = cache s \<and> isl (fst (fetchAndStore env url f s))"
  using assms by (auto simp: fetchAndStore_def Let_def)

lemma isFresh_iff:
  "isFresh s f now \<longleftrightarrow> (\<exists>e. lookupEntry s f = Some e \<and> now - mtimeMs e < CACHE_TTL)"
  by (simp add: isFresh_def split: option.splits)

lemma fetchWithCache_requests:
  "requests (snd (fetchWithCache env url f s)) =
     (if isFresh s f (dateNow env f) then requests s else requests s @ [url])"
proof (cases "isFresh s f (dateNow env f)")
  case True
  then obtain e where e: "lookupEntry s f = Some e" "dateNow env f - mtimeMs e < CACHE_TTL"
    by (auto simp: isFresh_iff)
  from fetchWithCache_fresh[OF e] True show ?thesis
    by (simp add: requests_readCached)
next
  case False
  then show ?thesis
    by (simp add: fetchWithCache_not_fresh requests_fetchAndStore)
qed

lemma lookupEntry_written:
  "lookupEntry (s\<lparr>requests := q, cache := Some (fs(f \<mapsto> e))\<rparr>) f = Some e"
  by (simp add: lookupEntry_def)

lemma fetchWithCache_miss_success:
  assumes "\<not> isFresh s f (dateNow env f)"
    and "fetch env url = Resolved r" and "ok r" and "JSON_parse env (body r) = Inr d"
  shows "fst (fetchWithCache env url f s) = Inr d"
    and "lookupEntry (snd (fetchWithCache env url f s)) f =
           Some \<lparr>content = JSON_stringify env d, mtimeMs = mtimeOfWrite env f\<rparr>"
proof -
  obtain fs where fs: "cache (ensureCacheDir s) = Some fs"
    using cache_ensureCacheDir[of s] by auto
  note eq = fetchAndStore_success[OF fs assms(2,3,4), of f]
  show "fst (fetchWithCache env url f s) = Inr d"
    by (simp add: fetchWithCache_not_fresh[OF assms(1)] eq)
  show "lookupEntry (snd (fetchWithCache env url f s)) f =
           Some \<lparr>content = JSON_stringify env d, mtimeMs = mtimeOfWrite env f\<rparr>"
    by (simp add: fetchWithCache_not_fresh[OF assms(1)] eq lookupEntry_written)
qed

lemma fetchWithCache_fresh_read:
  assumes "lookupEntry s f = Some e" and "dateNow env f - mtimeMs e < CACHE_TTL"
  shows "fetchWithCache env url f s =
    ((case JSON_parse env (content e) of Inl m \<Rightarrow> Inl (JsonSyntaxError m) | Inr d \<Rightarrow> Inr d), s)"
  using fetchWithCache_fresh[OF assms] by (simp add: readCached_def split: sum.splits)

lemma lookupEntry_other:
  "f' \<noteq> f \<Longrightarrow> lookupEntry (s\<lparr>requests := q, cache := Some (fs(f \<mapsto> e))\<rparr>) f' = fs f'"
  by (simp add: lookupEntry_def)

lemma fetchWithCache_other_entries:
  assumes "f' \<noteq> f"
  shows "lookupEntry (snd (fetchWithCache env url f s)) f' = lookupEntry s f'"
proof (cases "isFresh s f (dateNow env f)")
  case True
  then obtain e where e: "lookupEntry s f = Some e" "dateNow env f - mtimeMs e < CACHE_TTL"
    by (auto simp: isFresh_iff)
  show ?thesis by (simp add: fetchWithCache_fresh[OF e] requests_readCached)
next
  case False
  obtain fs where fs: "cache (ensureCacheDir s) = Some fs"
    using cache_ensureCacheDir[of s] by auto
  have look: "fs f' = lookupEntry s f'"
    using fs lookupEntry_ensureCacheDir[of s f'] by (simp add: lookupEntry_def)
  show ?thesis
    using fs look assms
    by (simp add: fetchWithCache_not_fresh[OF False] fetchAndStore_def Let_def writeFileSync_def
        lookupEntry_def split: netResult.splits sum.splits)
qed

text \<open>
  Claim C3. Freshness is \<open>now - lastModified < TTL\<close> with a TTL of 12 hours, and an absent
  entry is never fresh; a call issues a network request exactly when the entry is not
  fresh, and on a fresh entry it returns the parse of the entry's bytes and leaves the
  state as it is. Starting from an entry that is absent or stale, with a first response
  that is 2xx and parses: the first call issues one request, returns the data and stores
  their printed form, stamped with the time of the write; a second call within the TTL of
  that stamp issues no request, changes nothing and returns the parse of exactly those
  stored bytes, so the two calls issue exactly one request; a call after the TTL has
  elapsed issues exactly one more request, and a response that is 2xx and parses
  overwrites the entry. No call touches the entry of another cache file.
\<close>

theorem fetchWithCache_ttl_window:
  fixes st :: state and env1 env2 env3 :: "'j runtime" and url f :: string
  defines "call1 \<equiv> fetchWithCache env1 url f st"
  defines "call2 \<equiv> fetchWithCache env2 url f (snd call1)"
  defines "call3 \<equiv> fetchWithCache env3 url f (snd call2)"
  assumes miss: "\<not> isFresh st f (dateNow env1 f)"
    and resp1: "fetch env1 url = Resolved r1 \<and> ok r1 \<and> JSON_parse env1 (body r1) = Inr d1"
    and within: "dateNow env2 f - mtimeOfWrite env1 f < CACHE_TTL"
    and elapsed: "\<not> dateNow env3 f - mtimeOfWrite env1 f < CACHE_TTL"
  shows "CACHE_TTL = 12 * 60 * 60 * 1000
    \<and> (isFresh s f now \<longleftrightarrow> (\<exists>e. lookupEntry s f = Some e \<and> now - mtimeMs e < CACHE_TTL))
    \<and> (lookupEntry s f = None \<longrightarrow> \<not> isFresh s f now)
    \<and> requests (snd (fetchWithCache env url f s)) =
         (if isFresh s f (dateNow env f) then requests s else requests s @ [url])
    \<and> (lookupEntry s f = Some e0 \<and> dateNow env f - mtimeMs e0 < CACHE_TTL \<longrightarrow>
         fetchWithCache env url f s =
           ((case JSON_parse env (content e0) of
               Inl m \<Rightarrow> Inl (JsonSyntaxError m)
             | Inr d \<Rightarrow> Inr d), s))
    \<and> (f' \<noteq> f \<longrightarrow> lookupEntry (snd (fetchWithCache env url f s)) f' = lookupEntry s f')
    \<and> fst call1 = Inr d1
    \<and> requests (snd call1) = requests st @ [url]
    \<and> lookupEntry (snd call1) f =
         Some \<lparr>content = JSON_stringify env1 d1, mtimeMs = mtimeOfWrite env1 f\<rparr>
    \<and> snd call2 = snd call1
    \<and> fst call2 =
         (case JSON_parse env2 (JSON_stringify env1 d1) of
            Inl m \<Rightarrow> Inl (JsonSyntaxError m)
          | Inr d \<Rightarrow> Inr d)
    \<and> requests (snd call2) = requests st @ [url]
    \<and> requests (snd call3) = requests st @ [url, url]
    \<and> (fetch env3 url = Resolved r3 \<and> ok r3 \<and> JSON_parse env3 (body r3) = Inr d3 \<longrightarrow>
         fst call3 = Inr d3 \<and>
         lookupEntry (snd call3) f =
           Some \<lparr>content = JSON_stringify env3 d3, mtimeMs = mtimeOfWrite env3 f\<rparr>)"
proof -
  let ?e1 = "\<lparr>content = JSON_stringify env1 d1, mtimeMs = mtimeOfWrite env1 f\<rparr>"
  let ?read = "case JSON_parse env2 (JSON_stringify env1 d1) of
            Inl m \<Rightarrow> Inl (JsonSyntaxError m)
          | Inr d \<Rightarrow> Inr d"
  have ttl: "CACHE_TTL = 12 * 60 * 60 * 1000" by (simp add: CACHE_TTL_def)
  have absent: "lookupEntry s f = None \<longrightarrow> \<not> isFresh s f now" by (simp add: isFresh_def)
  have read: "lookupEntry s f = Some e0 \<and> dateNow env f - mtimeMs e0 < CACHE_TTL \<longrightarrow>
         fetchWithCache env url f s =
           ((case JSON_parse env (content e0) of
               Inl m \<Rightarrow> Inl (JsonSyntaxError m)
             | Inr d \<Rightarrow> Inr d), s)"
    using fetchWithCache_fresh_read[of s f e0 env url] by blast
  have other: "f' \<noteq> f \<longrightarrow> lookupEntry (snd (fetchWithCache env url f s)) f' = lookupEntry s f'"
    using fetchWithCache_other_entries[of f' f env url s] by blast
  have d1: "fst call1 = Inr d1"
    unfolding call1_def using fetchWithCache_miss_success(1)[OF miss] resp1 by blast
  have r1: "requests (snd call1) = requests st @ [url]"
    using miss by (simp add: call1_def fetchWithCache_requests)
  have e1: "lookupEntry (snd call1) f = Some ?e1"
    unfolding call1_def using fetchWithCache_miss_success(2)[OF miss] resp1 by blast
  have c2: "call2 = (?read, snd call1)"
    unfolding call2_def using fetchWithCache_fresh_read[OF e1, of env2 url] within by simp
  have s2: "snd call2 = snd call1" by (simp add: c2)
  have f2: "fst call2 = ?read" by (simp add: c2)
  have r2: "requests (snd call2) = requests st @ [url]" by (simp add: s2 r1)
  have stale3: "\<not> isFresh (snd call2) f (dateNow env3 f)"
    using e1 elapsed by (simp add: s2 isFresh_def)
  have r3: "requests (snd call3) = requests st @ [url, url]"
    using stale3 r2 by (simp add: call3_def fetchWithCache_requests)
  have w3: "fetch env3 url = Resolved r3 \<and> ok r3 \<and> JSON_parse env3 (body r3) = Inr d3 \<longrightarrow>
         fst call3 = Inr d3 \<and>
         lookupEntry (snd call3) f =
           Some \<lparr>content = JSON_stringify env3 d3, mtimeMs = mtimeOfWrite env3 f\<rparr>"
    unfolding call3_def using fetchWithCache_miss_success[OF stale3] by blast
  show ?thesis
    using ttl isFresh_iff[of s f now] absent fetchWithCache_requests[of env url f s] read other
      d1 r1 e1 s2 f2 r2 r3 w3
    by simp
qed

theorem fetchWithCache_ttl_window_witness:
  "\<not> isFresh emptyState ''nfl_teams.json''
       (dateNow (demoRuntime (Resolved \<lparr>status = 200, body = ''[1,2]''\<rparr>) 1000 1005) ''nfl_teams.json'')
   \<and> 43201004 - 1005 < CACHE_TTL \<and> \<not> 43201005 - 1005 < CACHE_TTL
   \<and> requests (snd (fetchWithCache (demoRuntime (Resolved \<lparr>status = 200, body = ''[7]''\<rparr>) 43201005 43201009)
         ''u'' ''nfl_teams.json''
         (snd (fetchWithCache (demoRuntime (Rejected ''offline'') 43201004 43201004)
           ''u'' ''nfl_teams.json''
           (snd (fetchWithCache (demoRuntime (Resolved \<lparr>status = 200, body = ''[1,2]''\<rparr>) 1000 1005)
             ''u'' ''nfl_teams.json'' emptyState)))))) = [''u'', ''u'']
   \<and> fst (fetchWithCache (demoRuntime (Rejected ''offline'') 43201004 43201004)
           ''u'' ''nfl_teams.json''
           (snd (fetchWithCache (demoRuntime (Resolved \<lparr>status = 200, body = ''[1,2]''\<rparr>) 1000 1005)
             ''u'' ''nfl_teams.json'' emptyState))) = Inr ''[1,2]''
   \<and> lookupEntry (snd (fetchWithCache (demoRuntime (Resolved \<lparr>status = 200, body = ''[7]''\<rparr>) 43201005 43201009)
         ''u'' ''nfl_teams.json''
         (snd (fetchWithCache (demoRuntime (Rejected ''offline'') 43201004 43201004)
           ''u'' ''nfl_teams.json''
           (snd (fetchWithCache (demoRuntime (Resolved \<lparr>status = 200, body = ''[1,2]''\<rparr>) 1000 1005)
             ''u'' ''nfl_teams.json'' emptyState)))))) ''nfl_teams.json''
       = Some \<lparr>content = ''[7]'', mtimeMs = 43201009\<rparr>"
proof -
  let ?r1 = "\<lparr>status = 200, body = ''[1,2]''\<rparr>"
  let ?r3 = "\<lparr>status = 200, body = ''[7]''\<rparr>"
  let ?E1 = "demoRuntime (Resolved ?r1) 1000 1005"
  let ?E2 = "demoRuntime (Rejected ''offline'') 43201004 43201004"
  let ?E3 = "demoRuntime (Resolved ?r3) 43201005 43201009"
  let ?s1 = "snd (fetchWithCache ?E1 ''u'' ''nfl_teams.json'' emptyState)"
  let ?s2 = "snd (fetchWithCache ?E2 ''u'' ''nfl_teams.json'' ?s1)"
  let ?c3 = "fetchWithCache ?E3 ''u'' ''nfl_teams.json'' ?s2"
  have h1: "\<not> isFresh emptyState ''nfl_teams.json'' (dateNow ?E1 ''nfl_teams.json'')"
    by (simp add: isFresh_def lookupEntry_def emptyState_def)
  have h2: "fetch ?E1 ''u'' = Resolved ?r1 \<and> ok ?r1 \<and> JSON_parse ?E1 (body ?r1) = Inr ''[1,2]''"
    by (simp add: demoRuntime_def ok_def)
  have h3: "dateNow ?E2 ''nfl_teams.json'' - mtimeOfWrite ?E1 ''nfl_teams.json'' < CACHE_TTL"
    by (simp add: demoRuntime_def CACHE_TTL_def)
  have h4: "\<not> dateNow ?E3 ''nfl_teams.json'' - mtimeOfWrite ?E1 ''nfl_teams.json'' < CACHE_TTL"
    by (simp add: demoRuntime_def CACHE_TTL_def)
  have p: "(case JSON_parse ?E2 (JSON_stringify ?E1 ''[1,2]'') of
              Inl m \<Rightarrow> Inl (JsonSyntaxError m) | Inr d \<Rightarrow> Inr d) = Inr ''[1,2]''"
    by (simp add: demoRuntime_def)
  have q: "fetch ?E3 ''u'' = Resolved ?r3 \<and> ok ?r3 \<and> JSON_parse ?E3 (body ?r3) = Inr ''[7]''"
    by (simp add: demoRuntime_def ok_def)
  note t = fetchWithCache_ttl_window[OF h1 h2 h3 h4,
      where s = emptyState and now = 0 and env = "?E1" and ?r3.0 = "?r3"
        and ?d3.0 = "''[7]''" and ?e0.0 = "\<lparr>content = [], mtimeMs = 0\<rparr>" and f' = "[]"]
  have a: "requests (snd ?c3) = [''u'', ''u'']"
  proof -
    from t have "requests (snd ?c3) = requests emptyState @ [''u'', ''u'']" by blast
    then show ?thesis by (simp add: emptyState_def)
  qed
  have b: "fst (fetchWithCache ?E2 ''u'' ''nfl_teams.json'' ?s1) = Inr ''[1,2]''"
  proof -
    from t have "fst (fetchWithCache ?E2 ''u'' ''nfl_teams.json'' ?s1) =
        (case JSON_parse ?E2 (JSON_stringify ?E1 ''[1,2]'') of
              Inl m \<Rightarrow> Inl (JsonSyntaxError m) | Inr d \<Rightarrow> Inr d)"
      by blast
    then show ?thesis using p by simp
  qed
  have c: "lookupEntry (snd ?c3) ''nfl_teams.json'' = Some \<lparr>content = ''[7]'', mtimeMs = 43201009\<rparr>"
  proof -
    from t q have "lookupEntry (snd ?c3) ''nfl_teams.json''
        = Some \<lparr>content = JSON_stringify ?E3 ''[7]'', mtimeMs = mtimeOfWrite ?E3 ''nfl_teams.json''\<rparr>"
      by blast
    then show ?thesis by (simp add: demoRuntime_def)
  qed
  have h3': "43201004 - 1005 < CACHE_TTL" and h4': "\<not> 43201005 - 1005 < CACHE_TTL"
    by (simp_all add: CACHE_TTL_def)
  show ?thesis using h1 h3' h4' a b c by blast
qed

text \<open>
  Claim C10. When the entry exists but is stale and the refresh fails, because the
  response is not 2xx (the error carries the status code and the URL) or because its body
  does not parse, \<open>fetchWithCache\<close> writes nothing: the cache directory, and with it the stale
  entry, is unchanged.
\<close>

theorem stale_refresh_failure_keeps_entry:
  assumes present: "lookupEntry st f = Some e"
    and stale: "\<not> dateNow env f - mtimeMs e < CACHE_TTL"
    and resp: "fetch env url = Resolved r"
    and failed: "\<not> ok r \<or> (\<exists>m. JSON_parse env (body r) = Inl m)"
  shows "cache (snd (fetchWithCache env url f st)) = cache st
    \<and> lookupEntry (snd (fetchWithCache env url f st)) f = Some e
    \<and> (\<not> ok r \<longrightarrow> fst (fetchWithCache env url f st) = Inl (HttpError (status r) url)
          \<and> message (HttpError (status r) url) = ''HTTP '' @ showNat (status r) @ '' for '' @ url)
    \<and> (ok r \<longrightarrow> (\<exists>m. fst (fetchWithCache env url f st) = Inl (JsonSyntaxError m)))"
proof -
  from present obtain fs where fs: "cache st = Some fs" using lookupEntry_Some_cache by blast
  have same: "ensureCacheDir st = st" using fs by (rule ensureCacheDir_present)
  have nf: "\<not> isFresh st f (dateNow env f)" using present stale by (simp add: isFresh_def)
  have eq: "fetchWithCache env url f st = fetchAndStore env url f st"
    using fetchWithCache_not_fresh[OF nf] same by simp
  have keep: "cache (snd (fetchAndStore env url f st)) = cache st"
    using fetchAndStore_failure_keeps_cache[of env url _ f st] resp failed by blast
  have look: "lookupEntry (snd (fetchAndStore env url f st)) f = Some e"
    using keep present by (simp add: lookupEntry_def)
  have http: "\<not> ok r \<longrightarrow> fst (fetchAndStore env url f st) = Inl (HttpError (status r) url)"
    using resp by (simp add: fetchAndStore_def Let_def)
  have syn: "ok r \<longrightarrow> (\<exists>m. fst (fetchAndStore env url f st) = Inl (JsonSyntaxError m))"
    using resp failed by (auto simp: fetchAndStore_def Let_def)
  show ?thesis using keep look http syn by (simp add: eq)
qed

theorem stale_refresh_failure_keeps_entry_witness:
  "lookupEntry \<lparr>cache = Some [''cfb_games.json'' \<mapsto> \<lparr>content = ''[]'', mtimeMs = 0\<rparr>], requests = []\<rparr>
       ''cfb_games.json'' = Some \<lparr>content = ''[]'', mtimeMs = 0\<rparr>
   \<and> \<not> 43200000 - 0 < CACHE_TTL
   \<and> \<not> ok \<lparr>status = 503, body = ''busy''\<rparr>
   \<and> fst (fetchWithCache (demoRuntime (Resolved \<lparr>status = 503, body = ''busy''\<rparr>) 43200000 43200001)
         ''u'' ''cfb_games.json''
         \<lparr>cache = Some [''cfb_games.json'' \<mapsto> \<lparr>content = ''[]'', mtimeMs = 0\<rparr>], requests = []\<rparr>)
       = Inl (HttpError 503 ''u'')
   \<and> message (HttpError 503 ''u'') = ''HTTP 503 for u''
   \<and> lookupEntry (snd (fetchWithCache (demoRuntime (Resolved \<lparr>status = 503, body = ''busy''\<rparr>) 43200000 43200001)
         ''u'' ''cfb_games.json''
         \<lparr>cache = Some [''cfb_games.json'' \<mapsto> \<lparr>content = ''[]'', mtimeMs = 0\<rparr>], requests = []\<rparr>))
       ''cfb_games.json'' = Some \<lparr>content = ''[]'', mtimeMs = 0\<rparr>"
proof -
  let ?st = "\<lparr>cache = Some [''cfb_games.json'' \<mapsto> \<lparr>content = ''[]'', mtimeMs = 0\<rparr>], requests = []\<rparr>"
  let ?E = "demoRuntime (Resolved \<lparr>status = 503, body = ''busy''\<rparr>) 43200000 43200001"
  let ?r = "\<lparr>status = 503, body = ''busy''\<rparr>"
  have h1: "lookupEntry ?st ''cfb_games.json'' = Some \<lparr>content = ''[]'', mtimeMs = 0\<rparr>"
    by (simp add: lookupEntry_def)
  have h2: "\<not> dateNow ?E ''cfb_games.json'' - mtimeMs \<lparr>content = ''[]'', mtimeMs = 0\<rparr> < CACHE_TTL"
    by (simp add: demoRuntime_def CACHE_TTL_def)
  have h3: "fetch ?E ''u'' = Resolved ?r" by (simp add: demoRuntime_def)
  have nok: "\<not> ok ?r" by (simp add: ok_def)
  then have h4: "\<not> ok ?r \<or> (\<exists>m. JSON_parse ?E (body ?r) = Inl m)" by simp
  have sh: "showNat 503 = ''503''" by code_simp
  note t = stale_refresh_failure_keeps_entry[OF h1 h2 h3 h4]
  have ttl: "\<not> 43200000 - 0 < CACHE_TTL" by (simp add: CACHE_TTL_def)
  have m: "message (HttpError 503 ''u'') = ''HTTP 503 for u''" by (simp add: sh)
  from t nok have a: "fst (fetchWithCache ?E ''u'' ''cfb_games.json'' ?st) = Inl (HttpError (status ?r) ''u'')"
    by blast
  then have a': "fst (fetchWithCache ?E ''u'' ''cfb_games.json'' ?st) = Inl (HttpError 503 ''u'')" by simp
  from t have b: "lookupEntry (snd (fetchWithCache ?E ''u'' ''cfb_games.json'' ?st)) ''cfb_games.json''
      = Some \<lparr>content = ''[]'', mtimeMs = 0\<rparr>" by blast
  show ?thesis using h1 ttl nok a' m b by blast
qed

section \<open>Runs that print\<close>

lemma main_printed:
  assumes "\<not> clearCacheFlag opt" and "chooseOffset opt = Inr offset"
    and "fst (fetchAll w st) = Inr combined"
    and "selectGames w opt offset combined = Inr selected" and "selected \<noteq> []"
    and "headerLabel w opt offset = Inr label"
  shows "main w opt st =
    \<lparr>stdout = (label @ [CHR '':'', CHR 0x0A])
               # map (gameRow w) (sortGames (engineSort w) (dateParse w) selected),
     stderr = [], exitCode = 0, final = snd (fetchAll w st)\<rparr>"
  using assms by (cases "fetchAll w st") (simp add: main_def tryBlock_def report_def)

lemma main_no_games:
  assumes "\<not> clearCacheFlag opt" and "chooseOffset opt = Inr offset"
    and "fst (fetchAll w st) = Inr combined" and "selectGames w opt offset combined = Inr []"
  shows "main w opt st =
    \<lparr>stdout = [noGamesLine opt offset], stderr = [], exitCode = 0, final = snd (fetchAll w st)\<rparr>"
  using assms by (cases "fetchAll w st") (simp add: main_def tryBlock_def report_def)

lemma main_filter_error:
  assumes "\<not> clearCacheFlag opt" and "chooseOffset opt = Inr offset"
    and "fst (fetchAll w st) = Inr combined" and "selectGames w opt offset combined = Inl e"
  shows "main w opt st =
    \<lparr>stdout = [], stderr = [''Error: '' @ message e], exitCode = 0, final = snd (fetchAll w st)\<rparr>"
  using assms by (cases "fetchAll w st") (simp add: main_def tryBlock_def report_def caught_def)

lemma filterByTeam_Inr:
  "filterByTeam lower search gs = Inr kept
     \<Longrightarrow> kept = filter (\<lambda>g. matchesTeam lower search g = Inr True) gs"
proof (induction gs arbitrary: kept)
  case Nil
  then show ?case by simp
next
  case (Cons g gs)
  then show ?case
    by (auto split: sum.splits if_splits)
qed

lemma matchesTeam_Named:
  assumes "home g = Named h" and "away g = Named a"
  shows "matchesTeam lower search g = Inr (includesStr (lower h) search \<or> includesStr (lower a) search)"
  using assms by (simp add: matchesTeam_def lowerCaseOf_def)

section \<open>The date filter\<close>

lemma startsWith_prefix: "startsWith s t \<longleftrightarrow> prefix t s"
  by (auto simp: startsWith_def prefix_def) (metis append_take_drop_id)

lemma startsWithDate_iff:
  "startsWithDate v t \<longleftrightarrow> (\<exists>s. v = Some s \<and> s \<noteq> [] \<and> prefix t s)"
  by (cases v) (simp_all add: startsWithDate_def startsWith_prefix)

lemma matchesDate_iff:
  "matchesDate t g \<longleftrightarrow>
     (\<exists>s. dateTime g = Some s \<and> s \<noteq> [] \<and> prefix t s) \<or> (\<exists>s. day g = Some s \<and> s \<noteq> [] \<and> prefix t s)"
  by (simp add: matchesDate_def startsWithDate_iff)

text \<open>
  Claim C2, as stated, fails: the filter tests the two fields independently, so a Game
  whose timestamp is present and does not start with the target date is still kept when
  its day starts with it.
\<close>

theorem date_filter_counterexample:
  "matchesDate ''2025-09-01'' laterDayGame \<and> \<not> specMatchesDate ''2025-09-01'' laterDayGame"
  by (simp add: matchesDate_def specMatchesDate_def startsWithDate_def startsWith_def
      laterDayGame_def truthy_def)

lemma truthy_iff: "truthy v \<longleftrightarrow> (\<exists>s. v = Some s \<and> s \<noteq> [])"
  by (cases v) (simp_all add: truthy_def)

lemma selectGames_dated:
  assumes "computeTargetDate (zone w) (todayAtFilter w) n = Inr t"
  shows "selectGames w opt (Some n) combined =
    (if team opt = [] then Inr (filter (matchesDate t) combined)
     else filterByTeam (toLowerCase w) (toLowerCase w (team opt)) (filter (matchesDate t) combined))"
  using assms by (simp add: selectGames_def)

lemma selectGames_dated_kept:
  assumes t: "computeTargetDate (zone w) (todayAtFilter w) n = Inr t"
    and kept: "selectGames w opt (Some n) combined = Inr kept"
  shows "kept = filter (\<lambda>g. matchesDate t g
            \<and> (team opt = [] \<or> matchesTeam (toLowerCase w) (toLowerCase w (team opt)) g = Inr True))
          combined"
proof (cases "team opt = []")
  case True
  with kept show ?thesis by (simp add: selectGames_dated[OF t])
next
  case False
  with kept have "filterByTeam (toLowerCase w) (toLowerCase w (team opt)) (filter (matchesDate t) combined)
      = Inr kept"
    by (simp add: selectGames_dated[OF t])
  from filterByTeam_Inr[OF this] False show ?thesis by (simp add: conj_commute)
qed

lemma main_dated:
  assumes "\<not> clearCacheFlag opt" and "chooseOffset opt = Inr (Some n)"
    and "fst (fetchAll w st) = Inr combined"
    and "selectGames w opt (Some n) combined = Inr kept"
    and "headerLabel w opt (Some n) = Inr label"
  shows "main w opt st =
    \<lparr>stdout = (if kept = [] then [noGamesLine opt (Some n)]
               else (label @ [CHR '':'', CHR 0x0A])
                      # map (gameRow w) (sortGames (engineSort w) (dateParse w) kept)),
     stderr = [], exitCode = 0, final = snd (fetchAll w st)\<rparr>"
proof (cases "kept = []")
  case True
  with main_no_games[OF assms(1,2,3)] assms(4) show ?thesis by simp
next
  case False
  with main_printed[OF assms(1,2,3,4) _ assms(5)] show ?thesis by simp
qed

text \<open>
  Claim C2, amended. With the date filter active on target date \<open>t\<close>, a Game passes the date
  filter if and only if its \<open>dateTime\<close> is present (neither \<open>null\<close> nor empty) and starts with
  \<open>t\<close>, or its \<open>day\<close> is present and starts with \<open>t\<close>, whether or not \<open>dateTime\<close> is present. A
  Game with neither field never passes. This holds with and without a team filter: the
  Games selected are, in their order, the Games that pass the date filter and, when a team
  is given, match the team; they are what the run prints.
\<close>

theorem date_filter_keeps_on_either_field:
  assumes "computeTargetDate (zone w) (todayAtFilter w) n = Inr t"
  shows "(matchesDate t g \<longleftrightarrow>
         (\<exists>s. dateTime g = Some s \<and> s \<noteq> [] \<and> prefix t s)
         \<or> (\<exists>s. day g = Some s \<and> s \<noteq> [] \<and> prefix t s))
    \<and> (\<not> truthy (dateTime g) \<and> \<not> truthy (day g) \<longrightarrow> \<not> matchesDate t g)
    \<and> selectGames w opt (Some n) combined =
        (if team opt = [] then Inr (filter (matchesDate t) combined)
         else filterByTeam (toLowerCase w) (toLowerCase w (team opt))
                (filter (matchesDate t) combined))
    \<and> (selectGames w opt (Some n) combined = Inr kept \<longrightarrow>
         kept = filter (\<lambda>g. matchesDate t g
                  \<and> (team opt = []
                     \<or> matchesTeam (toLowerCase w) (toLowerCase w (team opt)) g = Inr True))
                combined)
    \<and> (\<not> clearCacheFlag opt \<and> chooseOffset opt = Inr (Some n)
         \<and> fst (fetchAll w st) = Inr combined
         \<and> selectGames w opt (Some n) combined = Inr kept
         \<and> headerLabel w opt (Some n) = Inr label \<longrightarrow>
        main w opt st =
          \<lparr>stdout = (if kept = [] then [noGamesLine opt (Some n)]
                     else (label @ [CHR '':'', CHR 0x0A])
                            # map (gameRow w) (sortGames (engineSort w) (dateParse w) kept)),
           stderr = [], exitCode = 0, final = snd (fetchAll w st)\<rparr>)"
proof -
  have a: "\<not> truthy (dateTime g) \<and> \<not> truthy (day g) \<longrightarrow> \<not> matchesDate t g"
    by (auto simp: matchesDate_iff truthy_iff)
  have b: "selectGames w opt (Some n) combined = Inr kept \<longrightarrow>
         kept = filter (\<lambda>g. matchesDate t g
                  \<and> (team opt = []
                     \<or> matchesTeam (toLowerCase w) (toLowerCase w (team opt)) g = Inr True))
                combined"
    using selectGames_dated_kept[OF assms] by blast
  have c: "\<not> clearCacheFlag opt \<and> chooseOffset opt = Inr (Some n)
         \<and> fst (fetchAll w st) = Inr combined
         \<and> selectGames w opt (Some n) combined = Inr kept
         \<and> headerLabel w opt (Some n) = Inr label \<longrightarrow>
        main w opt st =
          \<lparr>stdout = (if kept = [] then [noGamesLine opt (Some n)]
                     else (label @ [CHR '':'', CHR 0x0A])
                            # map (gameRow w) (sortGames (engineSort w) (dateParse w) kept)),
           stderr = [], exitCode = 0, final = snd (fetchAll w st)\<rparr>"
    using main_dated[of opt n w st combined kept label] by blast
  show ?thesis
    using matchesDate_iff[of t g] a selectGames_dated[OF assms, of opt combined] b c by blast
qed

theorem date_filter_keeps_on_either_field_witness:
  "computeTargetDate (zone onlineWorld) (todayAtFilter onlineWorld) 0 = Inr ''2025-09-02''
   \<and> selectGames onlineWorld \<lparr>days = ''0'', team = ''eagles'', clearCacheFlag = False\<rparr> (Some 0)
        [laterDayGame, fieldlessGame, weekOneGame, toGame CFB None demoRecord]
       = Inr [laterDayGame]
   \<and> selectGames onlineWorld \<lparr>days = ''0'', team = [], clearCacheFlag = False\<rparr> (Some 0)
        [laterDayGame, fieldlessGame, weekOneGame, toGame CFB None demoRecord]
       = Inr [laterDayGame, toGame CFB None demoRecord]
   \<and> matchesDate ''2025-09-02'' laterDayGame
   \<and> \<not> matchesDate ''2025-09-02'' fieldlessGame"
proof -
  let ?o = "\<lparr>days = ''0'', team = ''eagles'', clearCacheFlag = False\<rparr>"
  let ?p = "\<lparr>days = ''0'', team = [], clearCacheFlag = False\<rparr>"
  let ?gs = "[laterDayGame, fieldlessGame, weekOneGame, toGame CFB None demoRecord]"
  have h: "computeTargetDate (zone onlineWorld) (todayAtFilter onlineWorld) 0 = Inr ''2025-09-02''"
    by code_simp
  have m1: "matchesDate ''2025-09-02'' laterDayGame" by code_simp
  have m2: "\<not> matchesDate ''2025-09-02'' fieldlessGame" by code_simp
  have m3: "\<not> matchesDate ''2025-09-02'' weekOneGame" by code_simp
  have m4: "matchesDate ''2025-09-02'' (toGame CFB None demoRecord)" by code_simp
  have f: "filter (matchesDate ''2025-09-02'') ?gs = [laterDayGame, toGame CFB None demoRecord]"
    using m1 m2 m3 m4 by simp
  have ft: "filterByTeam (toLowerCase onlineWorld) (toLowerCase onlineWorld (team ?o))
        [laterDayGame, toGame CFB None demoRecord] = Inr [laterDayGame]"
    by code_simp
  note t = date_filter_keeps_on_either_field[OF h, THEN conjunct2, THEN conjunct2, THEN conjunct1]
  have a: "selectGames onlineWorld ?o (Some 0) ?gs = Inr [laterDayGame]"
    using t[of ?o ?gs] f ft by simp
  have b: "selectGames onlineWorld ?p (Some 0) ?gs = Inr [laterDayGame, toGame CFB None demoRecord]"
    using t[of ?p ?gs] f by simp
  show ?thesis using h a b m1 m2 by blast
qed

section \<open>Team codes\<close>

lemma dom_foldl_setProperty:
  "dom (foldl (\<lambda>m t. setProperty m (k t) (v t)) m0 ts) = dom m0 \<union> (k ` set ts - {''__proto__''})"
  by (induction ts arbitrary: m0) (auto simp: setProperty_def)

lemma teamLookup_None_iff:
  "teamLookup upper teams code = None \<longleftrightarrow>
     code = ''__proto__'' \<or> code \<notin> (\<lambda>t. upper (Key t)) ` set teams"
proof -
  have "dom (teamLookup upper teams) = (\<lambda>t. upper (Key t)) ` set teams - {''__proto__''}"
    unfolding teamLookup_def by (simp add: dom_foldl_setProperty)
  then show ?thesis by (auto simp: domIff)
qed

lemma resolveTeam_passes_through:
  assumes "lookup code = None" and "code \<notin> set objectPrototypeNames"
  shows "resolveTeam (Some lookup) code = Named code"
  using assms by (simp add: resolveTeam_def)

lemma resolveTeam_inherited:
  assumes "lookup code = None" and "code \<in> set objectPrototypeNames"
  shows "resolveTeam (Some lookup) code = Inherited code"
  using assms by (simp add: resolveTeam_def)

lemma fetchGames_success:
  assumes "fst (fetchWithCache (rt w) url f st) = Inr data"
  shows "fst (fetchGames w url lg f nflTeams st) = Inr (map (toGame lg nflTeams) (asRecords w data))"
  using assms by (cases "fetchWithCache (rt w) url f st") (simp add: fetchGames_def)

text \<open>
  Claim C7. A raw code without an entry in the lookup is meant to pass through as the
  Game's home or away value, and the Game type declares that value a string. The lookup
  is a plain object, so the read \<open>nflTeams?.[code]\<close> of a code that names a member of
  \<open>Object.prototype\<close> finds that member, which is truthy, and the fallback to the code is
  not taken. With the team directory holding the Eagles under the key \<open>PHI\<close> and a record
  whose away code is \<open>constructor\<close>, the lookup has no entry for the code, yet the Game's
  away value is the \<open>Object\<close> function: the row prints its source text, and a run with a
  team filter ends in the error \<open>g.away.toLowerCase is not a function\<close>.
\<close>

theorem inherited_member_not_passed_through:
  "teamLookup asciiUpperCase demoTeams (AwayTeam inheritedRecord) = None
   \<and> AwayTeam inheritedRecord = ''constructor''
   \<and> away (toGame NFL (Some (teamLookup asciiUpperCase demoTeams)) inheritedRecord)
       = Inherited ''constructor''
   \<and> home (toGame NFL (Some (teamLookup asciiUpperCase demoTeams)) inheritedRecord)
       = Named ''Philadelphia Eagles''
   \<and> stdout (main inheritedWorld \<lparr>days = [], team = [], clearCacheFlag = False\<rparr> emptyState)
       = [''Games for 2025-09-02'' @ [CHR '':'', CHR 0x0A],
          ''[2025-09-02 TUE][CFB] Navy @ Temple - 08:20 PM - Channel: NBC'',
          ''[2025-09-02 TUE][NFL] function Object() { [native code] } @ Philadelphia Eagles - 08:20 PM - Channel: NBC'']
   \<and> stderr (main inheritedWorld \<lparr>days = [], team = ''dallas'', clearCacheFlag = False\<rparr> emptyState)
       = [''Error: g.away.toLowerCase is not a function'']"
  by code_simp

section \<open>The order of the rows\<close>

lemma mset_insertSorted: "mset (insertSorted cmp x ys) = add_mset x (mset ys)"
  by (induction ys) auto

lemma mset_stableSort: "mset (stableSort cmp xs) = mset xs"
  unfolding stableSort_def by (induction xs) (auto simp: mset_insertSorted)

lemma set_insertSorted: "set (insertSorted cmp x ys) = insert x (set ys)"
  using mset_insertSorted[of cmp x ys] by (metis set_mset_add_mset_insert set_mset_mset)

lemma set_stableSort: "set (stableSort cmp xs) = set xs"
  using mset_stableSort[of cmp xs] by (metis set_mset_mset)

lemma sorted_insertSorted:
  assumes "sorted_wrt R ys"
    and after: "\<And>y. y \<in> set ys \<Longrightarrow> sortsAfter cmp x y \<Longrightarrow> R y x"
    and before: "\<And>y. y \<in> set ys \<Longrightarrow> \<not> sortsAfter cmp x y \<Longrightarrow> R x y"
    and trans: "\<And>y z. y \<in> set ys \<Longrightarrow> z \<in> set ys \<Longrightarrow> R x y \<Longrightarrow> R y z \<Longrightarrow> R x z"
  shows "sorted_wrt R (insertSorted cmp x ys)"
  using assms
proof (induction ys)
  case Nil
  then show ?case by simp
next
  case (Cons y ys)
  show ?case
  proof (cases "sortsAfter cmp x y")
    case True
    have "sorted_wrt R (insertSorted cmp x ys)"
      using Cons by (intro Cons.IH) auto
    moreover have "R y x" using Cons.prems(2) True by simp
    moreover have "\<forall>z\<in>set ys. R y z" using Cons.prems(1) by simp
    ultimately show ?thesis using True by (simp add: set_insertSorted)
  next
    case False
    have xy: "R x y" using Cons.prems(3) False by simp
    have "\<forall>z\<in>set ys. R x z"
    proof
      fix z assume z: "z \<in> set ys"
      then have "R y z" using Cons.prems(1) by simp
      with xy z show "R x z" using Cons.prems(4)[of y z] by simp
    qed
    then show ?thesis using False xy Cons.prems(1) by simp
  qed
qed

lemma weekThenTime_after:
  assumes "effectiveTime dp x \<noteq> None" and "effectiveTime dp y \<noteq> None"
    and "sortsAfter (compareGames dp) x y"
  shows "weekThenTime dp y x"
  using assms
  by (auto simp: sortsAfter_def compareGames_def weekThenTime_def split: if_splits option.splits)

lemma weekThenTime_before:
  assumes "effectiveTime dp x \<noteq> None" and "effectiveTime dp y \<noteq> None"
    and "\<not> sortsAfter (compareGames dp) x y"
  shows "weekThenTime dp x y"
  using assms
  by (auto simp: sortsAfter_def compareGames_def weekThenTime_def split: if_splits option.splits)

lemma weekThenTime_trans:
  assumes "weekThenTime dp x y" and "weekThenTime dp y z"
  shows "weekThenTime dp x z"
  using assms by (auto simp: weekThenTime_def split: option.splits)

lemma sorted_stableSort:
  assumes "\<forall>g\<in>set gs. effectiveTime dp g \<noteq> None"
  shows "sorted_wrt (weekThenTime dp) (stableSort (compareGames dp) gs)"
  using assms
proof (induction gs)
  case Nil
  then show ?case by (simp add: stableSort_def)
next
  case (Cons g gs)
  have ih: "sorted_wrt (weekThenTime dp) (stableSort (compareGames dp) gs)"
    using Cons by simp
  have times: "\<forall>h\<in>set (stableSort (compareGames dp) gs). effectiveTime dp h \<noteq> None"
    using Cons.prems by (simp add: set_stableSort)
  have g: "effectiveTime dp g \<noteq> None" using Cons.prems by simp
  have "sorted_wrt (weekThenTime dp) (insertSorted (compareGames dp) g (stableSort (compareGames dp) gs))"
  proof (rule sorted_insertSorted[OF ih])
    fix y assume "y \<in> set (stableSort (compareGames dp) gs)" "sortsAfter (compareGames dp) g y"
    then show "weekThenTime dp y g" using weekThenTime_after g times by blast
  next
    fix y assume "y \<in> set (stableSort (compareGames dp) gs)" "\<not> sortsAfter (compareGames dp) g y"
    then show "weekThenTime dp g y" using weekThenTime_before g times by blast
  next
    fix y z assume "weekThenTime dp g y" "weekThenTime dp y z"
    then show "weekThenTime dp g z" by (rule weekThenTime_trans)
  qed
  then show ?case by (simp add: stableSort_def)
qed

lemma filter_insertSorted:
  assumes "\<And>y. y \<in> set ys \<Longrightarrow> P x \<Longrightarrow> P y \<Longrightarrow> \<not> sortsAfter cmp x y"
  shows "filter P (insertSorted cmp x ys) = filter P (x # ys)"
  using assms by (induction ys) auto

lemma same_key_not_after:
  assumes "week x = k \<and> effectiveTime dp x = Some t" and "week y = k \<and> effectiveTime dp y = Some t"
  shows "\<not> sortsAfter (compareGames dp) x y"
  using assms by (simp add: sortsAfter_def compareGames_def)

lemma stableSort_stable:
  "filter (\<lambda>g. week g = k \<and> effectiveTime dp g = Some t) (stableSort (compareGames dp) gs)
     = filter (\<lambda>g. week g = k \<and> effectiveTime dp g = Some t) gs"
proof (induction gs)
  case Nil
  then show ?case by (simp add: stableSort_def)
next
  case (Cons g gs)
  let ?P = "\<lambda>g. week g = k \<and> effectiveTime dp g = Some t"
  have "filter ?P (insertSorted (compareGames dp) g (stableSort (compareGames dp) gs))
      = filter ?P (g # stableSort (compareGames dp) gs)"
    by (rule filter_insertSorted) (rule same_key_not_after)
  then show ?case using Cons by (simp add: stableSort_def)
qed

lemma effectiveTime_undated:
  "\<not> hasTimeInfo g \<Longrightarrow> effectiveTime dp g = Some 0"
  by (simp add: hasTimeInfo_def effectiveTime_def timeSource_def)

lemma undated_first:
  assumes sorted: "sorted_wrt (weekThenTime dp) xs"
    and i: "i < length xs" and j: "j < length xs"
    and undated: "\<not> hasTimeInfo (xs ! i)"
    and same: "week (xs ! j) = week (xs ! i)"
    and later: "\<exists>t. effectiveTime dp (xs ! j) = Some t \<and> 0 < t"
  shows "i < j"
proof (rule ccontr)
  assume "\<not> i < j"
  moreover have "i \<noteq> j" using undated later effectiveTime_undated[of "xs ! i" dp] by auto
  ultimately have "j < i" by simp
  then have "weekThenTime dp (xs ! j) (xs ! i)"
    using sorted i by (simp add: sorted_wrt_iff_nth_less)
  then show False
    using same later effectiveTime_undated[OF undated, of dp]
    by (auto simp: weekThenTime_def)
qed

lemma timesParse_iff: "timesParse dp gs \<longleftrightarrow> (\<forall>g\<in>set gs. effectiveTime dp g \<noteq> None)"
  by (simp add: timesParse_def list_all_iff)

lemma sortGames_parsed: "timesParse dp gs \<Longrightarrow> sortGames engine dp gs = stableSort (compareGames dp) gs"
  by (simp add: sortGames_def)

lemma sortGames_unparsed: "\<not> timesParse dp gs \<Longrightarrow> sortGames engine dp gs = engine gs"
  by (simp add: sortGames_def)

lemma effectiveTime_dateTime:
  "truthy (dateTime g) \<Longrightarrow> effectiveTime dp g = dp (the (dateTime g))"
  by (auto simp: effectiveTime_def timeSource_def truthy_def split: option.splits)

lemma effectiveTime_day:
  "\<not> truthy (dateTime g) \<Longrightarrow> truthy (day g) \<Longrightarrow> effectiveTime dp g = dp (the (day g))"
  by (auto simp: effectiveTime_def timeSource_def truthy_def split: option.splits)

lemma undated_after_earlier:
  assumes sorted: "sorted_wrt (weekThenTime dp) xs"
    and i: "i < length xs" and j: "j < length xs"
    and undated: "\<not> hasTimeInfo (xs ! i)"
    and same: "week (xs ! j) = week (xs ! i)"
    and earlier: "\<exists>t. effectiveTime dp (xs ! j) = Some t \<and> t < 0"
  shows "j < i"
proof (rule ccontr)
  assume "\<not> j < i"
  moreover have "i \<noteq> j" using undated earlier effectiveTime_undated[of "xs ! i" dp] by auto
  ultimately have "i < j" by simp
  then have "weekThenTime dp (xs ! i) (xs ! j)"
    using sorted j by (simp add: sorted_wrt_iff_nth_less)
  then show False
    using same earlier effectiveTime_undated[OF undated, of dp]
    by (auto simp: weekThenTime_def)
qed

text \<open>
  Claim C4, as stated, fails on two kinds of lists. The fallback for a Game without time
  information is the epoch, so a Game of the same week dated before 1970 sorts before it:
  the undated Game does not come first. And when a time string is not a date the
  comparator returns \<open>NaN\<close> against every Game of the same week, the order is the
  engine's, and an engine that leaves the list late, garbled, early as it is (as V8
  does) prints the 19:00 Game before the 13:00 Game of the same week.
\<close>

theorem sort_order_counterexample:
  "sortGames (\<lambda>gs. gs) isoParse [undatedGame, oldGame] = [oldGame, undatedGame]
   \<and> week oldGame = week undatedGame \<and> hasTimeInfo oldGame \<and> \<not> hasTimeInfo undatedGame
   \<and> sortGames (\<lambda>gs. gs) isoParse [lateGame, garbledGame, earlyGame]
       = [lateGame, garbledGame, earlyGame]
   \<and> week lateGame = week earlyGame
   \<and> effectiveTime isoParse lateGame = Some 1757185200000
   \<and> effectiveTime isoParse earlyGame = Some 1757163600000
   \<and> effectiveTime isoParse garbledGame = None"
proof -
  have u: "effectiveTime isoParse undatedGame = Some 0"
    by (simp add: effectiveTime_def timeSource_def truthy_def undatedGame_def)
  have o: "effectiveTime isoParse oldGame = Some (- 86400000)"
    by (simp add: effectiveTime_def timeSource_def truthy_def oldGame_def isoParse_def)
  have l: "effectiveTime isoParse lateGame = Some 1757185200000"
    by (simp add: effectiveTime_def timeSource_def truthy_def lateGame_def isoParse_def)
  have e: "effectiveTime isoParse earlyGame = Some 1757163600000"
    by (simp add: effectiveTime_def timeSource_def truthy_def earlyGame_def isoParse_def)
  have g: "effectiveTime isoParse garbledGame = None"
    by (simp add: effectiveTime_def timeSource_def truthy_def garbledGame_def isoParse_def)
  have w: "week oldGame = 2" "week undatedGame = 2" "week lateGame = 2" "week earlyGame = 2"
    by (simp_all add: oldGame_def undatedGame_def lateGame_def earlyGame_def)
  have i: "hasTimeInfo oldGame" "\<not> hasTimeInfo undatedGame"
    by (simp_all add: hasTimeInfo_def truthy_def oldGame_def undatedGame_def)
  have a: "sortGames (\<lambda>gs. gs) isoParse [undatedGame, oldGame] = [oldGame, undatedGame]"
    by (simp add: sortGames_def timesParse_def stableSort_def sortsAfter_def compareGames_def u o w)
  have b: "sortGames (\<lambda>gs. gs) isoParse [lateGame, garbledGame, earlyGame]
       = [lateGame, garbledGame, earlyGame]"
    by (simp add: sortGames_def timesParse_def l g e)
  show ?thesis using a b w i l e g by simp
qed

text \<open>
  Claim C4, amended. For every list of Games whose time strings the runtime reads as
  dates, the sorted list is a rearrangement of the input, ordered by week ascending and,
  within a week, by effective time ascending; Games with the same week and effective time
  keep their input order. The effective time is that of \<open>dateTime\<close> if present, else that of
  \<open>day\<close>, else 0 (the epoch), so within a week a Game with no time information comes before
  every Game whose effective time is after the epoch, and after every Game whose effective
  time is before it. The rows are printed in the sorted order.
\<close>

theorem sort_by_week_then_time:
  assumes parsed: "timesParse dp gs"
  shows "mset (sortGames engine dp gs) = mset gs
    \<and> sorted_wrt (weekThenTime dp) (sortGames engine dp gs)
    \<and> filter (\<lambda>g. week g = k \<and> effectiveTime dp g = Some t) (sortGames engine dp gs)
        = filter (\<lambda>g. week g = k \<and> effectiveTime dp g = Some t) gs
    \<and> (truthy (dateTime g) \<longrightarrow> effectiveTime dp g = dp (the (dateTime g)))
    \<and> (\<not> truthy (dateTime g) \<and> truthy (day g) \<longrightarrow> effectiveTime dp g = dp (the (day g)))
    \<and> (\<not> hasTimeInfo g \<longrightarrow> effectiveTime dp g = Some 0)
    \<and> (\<forall>i j. i < length gs \<and> j < length gs
          \<and> \<not> hasTimeInfo (sortGames engine dp gs ! i)
          \<and> week (sortGames engine dp gs ! j) = week (sortGames engine dp gs ! i)
          \<and> (\<exists>t. effectiveTime dp (sortGames engine dp gs ! j) = Some t \<and> 0 < t)
          \<longrightarrow> i < j)
    \<and> (\<forall>i j. i < length gs \<and> j < length gs
          \<and> \<not> hasTimeInfo (sortGames engine dp gs ! i)
          \<and> week (sortGames engine dp gs ! j) = week (sortGames engine dp gs ! i)
          \<and> (\<exists>t. effectiveTime dp (sortGames engine dp gs ! j) = Some t \<and> t < 0)
          \<longrightarrow> j < i)
    \<and> (\<not> clearCacheFlag opt \<and> chooseOffset opt = Inr offset
          \<and> fst (fetchAll w st) = Inr combined
          \<and> selectGames w opt offset combined = Inr gs \<and> gs \<noteq> []
          \<and> headerLabel w opt offset = Inr label
          \<and> dateParse w = dp \<and> engineSort w = engine \<longrightarrow>
        stdout (main w opt st) =
          (label @ [CHR '':'', CHR 0x0A]) # map (gameRow w) (sortGames engine dp gs))
    \<and> (\<not> timesParse dp gs' \<longrightarrow> sortGames engine dp gs' = engine gs')"
proof -
  let ?res = "sortGames engine dp gs"
  have eq: "?res = stableSort (compareGames dp) gs" using parsed by (rule sortGames_parsed)
  have ms: "mset ?res = mset gs" by (simp add: eq mset_stableSort)
  have len: "length ?res = length gs" using ms by (metis size_mset)
  have srt: "sorted_wrt (weekThenTime dp) ?res"
    using parsed sorted_stableSort[of gs dp] by (simp add: eq timesParse_iff)
  have stab: "filter (\<lambda>g. week g = k \<and> effectiveTime dp g = Some t) ?res
        = filter (\<lambda>g. week g = k \<and> effectiveTime dp g = Some t) gs"
    by (simp add: eq stableSort_stable)
  have first: "\<forall>i j. i < length gs \<and> j < length gs
          \<and> \<not> hasTimeInfo (?res ! i) \<and> week (?res ! j) = week (?res ! i)
          \<and> (\<exists>t. effectiveTime dp (?res ! j) = Some t \<and> 0 < t)
          \<longrightarrow> i < j"
    using undated_first[OF srt] len by metis
  have after: "\<forall>i j. i < length gs \<and> j < length gs
          \<and> \<not> hasTimeInfo (?res ! i) \<and> week (?res ! j) = week (?res ! i)
          \<and> (\<exists>t. effectiveTime dp (?res ! j) = Some t \<and> t < 0)
          \<longrightarrow> j < i"
    using undated_after_earlier[OF srt] len by metis
  have rows: "\<not> clearCacheFlag opt \<and> chooseOffset opt = Inr offset
          \<and> fst (fetchAll w st) = Inr combined
          \<and> selectGames w opt offset combined = Inr gs \<and> gs \<noteq> []
          \<and> headerLabel w opt offset = Inr label
          \<and> dateParse w = dp \<and> engineSort w = engine \<longrightarrow>
        stdout (main w opt st) =
          (label @ [CHR '':'', CHR 0x0A]) # map (gameRow w) ?res"
  proof (intro impI, elim conjE)
    assume a: "\<not> clearCacheFlag opt" "chooseOffset opt = Inr offset"
      "fst (fetchAll w st) = Inr combined" "selectGames w opt offset combined = Inr gs"
      "gs \<noteq> []" "headerLabel w opt offset = Inr label" "dateParse w = dp" "engineSort w = engine"
    from main_printed[OF a(1-6)] a(7,8)
    show "stdout (main w opt st) = (label @ [CHR '':'', CHR 0x0A]) # map (gameRow w) ?res"
      by simp
  qed
  show ?thesis
    using ms srt stab effectiveTime_dateTime[of g dp] effectiveTime_day[of g dp]
      effectiveTime_undated[of g dp] first after rows sortGames_unparsed[of dp gs' engine]
    by blast
qed

theorem sort_by_week_then_time_witness:
  "timesParse isoParse [weekTwoGame, undatedGame, oldGame, weekOneGame]
   \<and> sorted_wrt (weekThenTime isoParse)
        (sortGames (\<lambda>gs. []) isoParse [weekTwoGame, undatedGame, oldGame, weekOneGame])
   \<and> sortGames (\<lambda>gs. []) isoParse [weekTwoGame, undatedGame, oldGame, weekOneGame]
        = [weekOneGame, oldGame, undatedGame, weekTwoGame]
   \<and> sortGames (\<lambda>gs. []) isoParse [weekTwoGame, weekOneGame] = [weekOneGame, weekTwoGame]
   \<and> sortGames (\<lambda>gs. []) isoParse [weekOneGame, weekTwoGame] = [weekOneGame, weekTwoGame]"
proof -
  have t2: "effectiveTime isoParse weekTwoGame = Some 1757336400000"
    by (simp add: effectiveTime_def timeSource_def truthy_def weekTwoGame_def isoParse_def)
  have t0: "effectiveTime isoParse undatedGame = Some 0"
    by (simp add: effectiveTime_def timeSource_def truthy_def undatedGame_def)
  have t1: "effectiveTime isoParse weekOneGame = Some 1756731600000"
    by (simp add: effectiveTime_def timeSource_def truthy_def weekOneGame_def isoParse_def)
  have to: "effectiveTime isoParse oldGame = Some (- 86400000)"
    by (simp add: effectiveTime_def timeSource_def truthy_def oldGame_def isoParse_def)
  have w: "week weekTwoGame = 2" "week undatedGame = 2" "week weekOneGame = 1" "week oldGame = 2"
    by (simp_all add: weekTwoGame_def undatedGame_def weekOneGame_def oldGame_def)
  have h: "timesParse isoParse [weekTwoGame, undatedGame, oldGame, weekOneGame]"
    using t2 t0 t1 to by (simp add: timesParse_def)
  have s: "sorted_wrt (weekThenTime isoParse)
        (sortGames (\<lambda>gs. []) isoParse [weekTwoGame, undatedGame, oldGame, weekOneGame])"
    by (rule sort_by_week_then_time[OF h, where k = 0 and t = 0 and g = undatedGame
          and engine = "\<lambda>gs. []"
          and w = "demoWorld None (Rejected [])" and opt = "\<lparr>days = [], team = [], clearCacheFlag = False\<rparr>"
          and offset = None and combined = "[]" and label = "[]" and st = emptyState
          and gs' = "[]",
          THEN conjunct2, THEN conjunct1])
  have e3: "sortGames (\<lambda>gs. []) isoParse [weekTwoGame, undatedGame, oldGame, weekOneGame]
        = [weekOneGame, oldGame, undatedGame, weekTwoGame]"
    by (simp add: sortGames_def timesParse_def stableSort_def sortsAfter_def compareGames_def t0 t1 t2 to w)
  have e2: "sortGames (\<lambda>gs. []) isoParse [weekTwoGame, weekOneGame] = [weekOneGame, weekTwoGame]"
    by (simp add: sortGames_def timesParse_def stableSort_def sortsAfter_def compareGames_def t0 t1 t2 w)
  have e2': "sortGames (\<lambda>gs. []) isoParse [weekOneGame, weekTwoGame] = [weekOneGame, weekTwoGame]"
    by (simp add: sortGames_def timesParse_def stableSort_def sortsAfter_def compareGames_def t0 t1 t2 w)
  show ?thesis using h s e3 e2 e2' by simp
qed

section \<open>The day offset option\<close>

text \<open>
  Claim C5, as stated, fails: \<open>parseInt\<close> reads the longest integer prefix, so a value such
  as \<open>1.5\<close>, which is not an integer, is accepted as 1; the run goes on to the three
  requests and ends with status 0.
\<close>

theorem days_prefix_counterexample:
  "\<not> isIntegerText ''1.5''
   \<and> stdout (main onlineWorld \<lparr>days = ''1.5'', team = [], clearCacheFlag = False\<rparr> emptyState)
       = [''No games found on day offset 1.'']
   \<and> stderr (main onlineWorld \<lparr>days = ''1.5'', team = [], clearCacheFlag = False\<rparr> emptyState) = []
   \<and> exitCode (main onlineWorld \<lparr>days = ''1.5'', team = [], clearCacheFlag = False\<rparr> emptyState) = 0
   \<and> length (requests (final (main onlineWorld \<lparr>days = ''1.5'', team = [], clearCacheFlag = False\<rparr> emptyState))) = 3"
  by code_simp

lemma parseInt_None_iff:
  "parseInt s = None \<longleftrightarrow>
     (case skipSign (dropWhile isWhite s) of [] \<Rightarrow> True | c # _ \<Rightarrow> \<not> isDigit c)"
  by (auto simp: parseInt_def Let_def takeWhile_eq_Nil_iff split: list.splits)

lemma isIntegerText_parses:
  assumes "isIntegerText s"
  shows "parseInt s \<noteq> None"
proof -
  from assms obtain c r where s: "s = c # r" by (cases s) (auto simp: isIntegerText_def)
  have nw: "\<And>d. isDigit d \<Longrightarrow> \<not> isWhite d" by (auto simp: isDigit_def isWhite_def)
  have ns: "\<not> isWhite (CHR ''+'')" "\<not> isWhite (CHR ''-'')" by (simp_all add: isWhite_def)
  have nd: "\<not> isDigit (CHR ''+'')" "\<not> isDigit (CHR ''-'')" by (simp_all add: isDigit_def)
  show ?thesis
  proof (cases "c = CHR ''+'' \<or> c = CHR ''-''")
    case True
    with assms s obtain d r' where r: "r = d # r'" "isDigit d"
      by (cases r) (auto simp: isIntegerText_def)
    with True s ns show ?thesis
      by (auto simp: parseInt_None_iff skipSign_def)
  next
    case False
    with assms s have "isDigit c" by (auto simp: isIntegerText_def)
    with False s nw show ?thesis
      by (auto simp: parseInt_None_iff skipSign_def)
  qed
qed

lemma chooseOffset_usage:
  "chooseOffset opt = Inl () \<longleftrightarrow> days opt \<noteq> [] \<and> parseInt (days opt) = None"
  by (auto simp: chooseOffset_def split: option.splits)

text \<open>
  Claim C5, amended. For every invocation without \<open>--clear-cache\<close> in which the value given
  to \<open>--days\<close> is not empty and has no integer prefix (after the leading white space that
  \<open>parseInt\<close> skips, the no-break space included, and one optional sign, the next character
  is not a decimal digit), the program prints the usage error on the error stream and
  exits with status 1, with no request issued and the cache untouched. Such a value is
  never an integer. A value with an integer prefix is read as that integer.
\<close>

lemma main_accepts_prefix:
  assumes "\<not> clearCacheFlag opt" and "days opt \<noteq> []" and "parseInt (days opt) = Some n"
  shows "chooseOffset opt = Inr (Some n) \<and> exitCode (main w opt st) = 0"
proof -
  have c: "chooseOffset opt = Inr (Some n)" using assms(2,3) by (simp add: chooseOffset_def)
  have "exitCode (main w opt st) = 0"
    using assms(1) c
    by (cases "tryBlock w opt (Some n) st"; cases "fst (tryBlock w opt (Some n) st)")
       (simp_all add: main_def caught_def)
  with c show ?thesis by simp
qed

theorem unparsable_days_fails_fast:
  assumes "\<not> clearCacheFlag opt" and "days opt \<noteq> []" and "parseInt (days opt) = None"
  shows "main w opt st =
      \<lparr>stdout = [], stderr = [''Invalid value for --days. Use numbers like 0, +1, -1.''],
       exitCode = 1, final = st\<rparr>
    \<and> (parseInt v = None \<longleftrightarrow>
         (case skipSign (dropWhile isWhite v) of [] \<Rightarrow> True | c # _ \<Rightarrow> \<not> isDigit c))
    \<and> \<not> isIntegerText (days opt)
    \<and> (\<not> clearCacheFlag opt' \<and> days opt' \<noteq> [] \<and> parseInt (days opt') = Some n \<longrightarrow>
         chooseOffset opt' = Inr (Some n) \<and> exitCode (main w opt' st) = 0)"
proof -
  have "chooseOffset opt = Inl ()" using assms by (simp add: chooseOffset_usage)
  then have "main w opt st =
      \<lparr>stdout = [], stderr = [''Invalid value for --days. Use numbers like 0, +1, -1.''],
       exitCode = 1, final = st\<rparr>"
    using assms(1) by (simp add: main_def usageLine_def)
  moreover have "\<not> isIntegerText (days opt)" using assms(3) isIntegerText_parses by blast
  ultimately show ?thesis
    using parseInt_None_iff[of v] main_accepts_prefix[of opt' n w st] by blast
qed

theorem unparsable_days_fails_fast_witness:
  "\<not> clearCacheFlag \<lparr>days = ''tomorrow'', team = ''eagles'', clearCacheFlag = False\<rparr>
   \<and> parseInt ''tomorrow'' = None
   \<and> main onlineWorld \<lparr>days = ''tomorrow'', team = ''eagles'', clearCacheFlag = False\<rparr> emptyState =
      \<lparr>stdout = [], stderr = [''Invalid value for --days. Use numbers like 0, +1, -1.''],
       exitCode = 1, final = emptyState\<rparr>
   \<and> parseInt [CHR 0xA0, CHR ''5''] = Some 5
   \<and> parseInt '' +3abc'' = Some 3
   \<and> parseInt ''-'' = None"
proof -
  let ?o = "\<lparr>days = ''tomorrow'', team = ''eagles'', clearCacheFlag = False\<rparr>"
  have h1: "\<not> clearCacheFlag ?o" by simp
  have h2: "days ?o \<noteq> []" by simp
  have p: "parseInt ''tomorrow'' = None" by code_simp
  then have h3: "parseInt (days ?o) = None" by simp
  have q: "parseInt [CHR 0xA0, CHR ''5''] = Some 5" "parseInt '' +3abc'' = Some 3" "parseInt ''-'' = None"
    by code_simp+
  have "main onlineWorld ?o emptyState =
      \<lparr>stdout = [], stderr = [''Invalid value for --days. Use numbers like 0, +1, -1.''],
       exitCode = 1, final = emptyState\<rparr>"
    by (rule unparsable_days_fails_fast[OF h1 h2 h3, where v = "[]" and opt' = "?o" and n = 0,
          THEN conjunct1])
  then show ?thesis using h1 p q by blast
qed

lemma report_team_only:
  "team o1 = team o2 \<Longrightarrow> report w o1 offset combined = report w o2 offset combined"
  by (simp add: report_def selectGames_def noGamesLine_def headerLabel_def
      cong: sum.case_cong option.case_cong if_cong)

lemma tryBlock_team_only:
  "team o1 = team o2 \<Longrightarrow> tryBlock w o1 offset st = tryBlock w o2 offset st"
  by (simp add: tryBlock_def report_team_only[of o1 o2] cong: prod.case_cong sum.case_cong)

lemma parseInt_zero: "parseInt ''0'' = Some 0"
  by (simp add: parseInt_def skipSign_def isWhite_def isDigit_def digitsVal_def)

lemma chooseOffset_default: "chooseOffset \<lparr>days = [], team = [], clearCacheFlag = c\<rparr> = Inr (Some 0)"
  by (simp add: chooseOffset_def)

lemma chooseOffset_days_zero: "chooseOffset \<lparr>days = ''0'', team = [], clearCacheFlag = c\<rparr> = Inr (Some 0)"
  by (simp add: chooseOffset_def parseInt_zero)

lemma main_default_eq:
  "main w \<lparr>days = [], team = [], clearCacheFlag = c\<rparr> st
     = main w \<lparr>days = ''0'', team = [], clearCacheFlag = c\<rparr> st"
proof (cases c)
  case True
  then show ?thesis by (simp add: main_def)
next
  case False
  have "tryBlock w \<lparr>days = [], team = [], clearCacheFlag = False\<rparr> (Some 0) st
      = tryBlock w \<lparr>days = ''0'', team = [], clearCacheFlag = False\<rparr> (Some 0) st"
    by (rule tryBlock_team_only) simp
  then show ?thesis using False
    by (simp add: main_def chooseOffset_default chooseOffset_days_zero)
qed

lemma showInt_zero: "showInt 0 = ''0''"
  by code_simp

lemma main_default_run:
  assumes "fst (fetchAll w st) = Inr combined"
    and "computeTargetDate (zone w) (todayAtFilter w) 0 = Inr t"
    and "computeTargetDate (zone w) (todayAtLabel w) 0 = Inr t'"
  shows "main w \<lparr>days = [], team = [], clearCacheFlag = False\<rparr> st =
    \<lparr>stdout = (if filter (matchesDate t) combined = [] then [''No games found on day offset 0.'']
               else (''Games for '' @ t' @ [CHR '':'', CHR 0x0A])
                      # map (gameRow w)
                          (sortGames (engineSort w) (dateParse w) (filter (matchesDate t) combined))),
     stderr = [], exitCode = 0, final = snd (fetchAll w st)\<rparr>"
proof -
  let ?o = "\<lparr>days = [], team = [], clearCacheFlag = False\<rparr>"
  have c: "\<not> clearCacheFlag ?o" by simp
  have s: "selectGames w ?o (Some 0) combined = Inr (filter (matchesDate t) combined)"
    using assms(2) by (simp add: selectGames_def)
  have l: "headerLabel w ?o (Some 0) = Inr (''Games for '' @ t')"
    using assms(3) by (simp add: headerLabel_def)
  have n: "noGamesLine ?o (Some 0) = ''No games found on day offset 0.''"
    by (simp add: noGamesLine_def showInt_zero)
  from main_dated[OF c chooseOffset_default assms(1) s l] n show ?thesis by simp
qed

lemma main_team_only:
  assumes "days opt = []" and "team opt \<noteq> []" and "\<not> clearCacheFlag opt"
    and "fst (fetchAll w st) = Inr combined"
    and "filterByTeam (toLowerCase w) (toLowerCase w (team opt)) combined = Inr matching"
  shows "main w opt st =
    \<lparr>stdout = (if matching = []
               then [''No games found for team matching '' @ dquote @ team opt @ dquote @ ''.'']
               else (''All games for teams matching '' @ dquote @ team opt @ dquote
                       @ [CHR '':'', CHR 0x0A])
                      # map (gameRow w) (sortGames (engineSort w) (dateParse w) matching)),
     stderr = [], exitCode = 0, final = snd (fetchAll w st)\<rparr>"
proof -
  have o: "chooseOffset opt = Inr None" using assms(1,2) by (simp add: chooseOffset_def)
  have s: "selectGames w opt None combined = Inr matching"
    using assms(2,5) by (simp add: selectGames_def)
  have l: "headerLabel w opt None
      = Inr (''All games for teams matching '' @ dquote @ team opt @ dquote)"
    using assms(2) by (simp add: headerLabel_def)
  have n: "noGamesLine opt None = ''No games found for team matching '' @ dquote @ team opt @ dquote @ ''.''"
    using assms(2) by (simp add: noGamesLine_def)
  show ?thesis
  proof (cases "matching = []")
    case True
    with main_no_games[OF assms(3) o assms(4)] s n show ?thesis by simp
  next
    case False
    with main_printed[OF assms(3) o assms(4) s _ l] show ?thesis by simp
  qed
qed

lemma main_team_only_error:
  assumes "days opt = []" and "team opt \<noteq> []" and "\<not> clearCacheFlag opt"
    and "fst (fetchAll w st) = Inr combined"
    and "filterByTeam (toLowerCase w) (toLowerCase w (team opt)) combined = Inl e"
  shows "main w opt st =
    \<lparr>stdout = [], stderr = [''Error: '' @ message e], exitCode = 0, final = snd (fetchAll w st)\<rparr>"
proof -
  have o: "chooseOffset opt = Inr None" using assms(1,2) by (simp add: chooseOffset_def)
  have s: "selectGames w opt None combined = Inl e"
    using assms(2,5) by (simp add: selectGames_def)
  from main_filter_error[OF assms(3) o assms(4) s] show ?thesis .
qed

text \<open>
  Claim C6. With neither \<open>--days\<close> nor \<open>--team\<close> the run is the run of \<open>--days 0\<close>: the
  offset is 0, and the run prints the Games that pass the date filter for today, under the
  header for that date. With \<open>--team\<close> and without \<open>--days\<close> there is no offset and no date
  filter: the run prints every Game of the combined schedules, of any week and date, that
  matches the team, under the header that names the team.
\<close>

theorem default_is_days_zero:
  "main w \<lparr>days = [], team = [], clearCacheFlag = c\<rparr> st
     = main w \<lparr>days = ''0'', team = [], clearCacheFlag = c\<rparr> st
   \<and> chooseOffset \<lparr>days = [], team = [], clearCacheFlag = c\<rparr> = Inr (Some 0)
   \<and> (fst (fetchAll w st) = Inr combined
        \<and> computeTargetDate (zone w) (todayAtFilter w) 0 = Inr t
        \<and> computeTargetDate (zone w) (todayAtLabel w) 0 = Inr t' \<longrightarrow>
       main w \<lparr>days = [], team = [], clearCacheFlag = False\<rparr> st =
         \<lparr>stdout = (if filter (matchesDate t) combined = []
                    then [''No games found on day offset 0.'']
                    else (''Games for '' @ t' @ [CHR '':'', CHR 0x0A])
                           # map (gameRow w)
                               (sortGames (engineSort w) (dateParse w)
                                  (filter (matchesDate t) combined))),
          stderr = [], exitCode = 0, final = snd (fetchAll w st)\<rparr>)
   \<and> (days opt = [] \<and> team opt \<noteq> [] \<longrightarrow> chooseOffset opt = Inr None)
   \<and> (days opt = [] \<and> team opt \<noteq> [] \<and> \<not> clearCacheFlag opt
        \<and> fst (fetchAll w st) = Inr combined
        \<and> filterByTeam (toLowerCase w) (toLowerCase w (team opt)) combined = Inr matching \<longrightarrow>
       matching = filter (\<lambda>g. matchesTeam (toLowerCase w) (toLowerCase w (team opt)) g = Inr True)
                    combined
       \<and> main w opt st =
         \<lparr>stdout = (if matching = []
                    then [''No games found for team matching '' @ dquote @ team opt @ dquote @ ''.'']
                    else (''All games for teams matching '' @ dquote @ team opt @ dquote
                            @ [CHR '':'', CHR 0x0A])
                           # map (gameRow w) (sortGames (engineSort w) (dateParse w) matching)),
          stderr = [], exitCode = 0, final = snd (fetchAll w st)\<rparr>)
   \<and> (days opt = [] \<and> team opt \<noteq> [] \<and> \<not> clearCacheFlag opt
        \<and> fst (fetchAll w st) = Inr combined
        \<and> filterByTeam (toLowerCase w) (toLowerCase w (team opt)) combined = Inl e \<longrightarrow>
       main w opt st =
         \<lparr>stdout = [], stderr = [''Error: '' @ message e], exitCode = 0,
          final = snd (fetchAll w st)\<rparr>)
   \<and> (home g = Named h \<and> away g = Named a \<longrightarrow>
       matchesTeam (toLowerCase w) (toLowerCase w (team opt)) g
         = Inr (includesStr (toLowerCase w h) (toLowerCase w (team opt))
                \<or> includesStr (toLowerCase w a) (toLowerCase w (team opt))))"
proof -
  have a: "fst (fetchAll w st) = Inr combined
        \<and> computeTargetDate (zone w) (todayAtFilter w) 0 = Inr t
        \<and> computeTargetDate (zone w) (todayAtLabel w) 0 = Inr t' \<longrightarrow>
       main w \<lparr>days = [], team = [], clearCacheFlag = False\<rparr> st =
         \<lparr>stdout = (if filter (matchesDate t) combined = []
                    then [''No games found on day offset 0.'']
                    else (''Games for '' @ t' @ [CHR '':'', CHR 0x0A])
                           # map (gameRow w)
                               (sortGames (engineSort w) (dateParse w)
                                  (filter (matchesDate t) combined))),
          stderr = [], exitCode = 0, final = snd (fetchAll w st)\<rparr>"
    using main_default_run[of w st combined t t'] by blast
  have b: "days opt = [] \<and> team opt \<noteq> [] \<longrightarrow> chooseOffset opt = Inr None"
    by (simp add: chooseOffset_def)
  have c: "days opt = [] \<and> team opt \<noteq> [] \<and> \<not> clearCacheFlag opt
        \<and> fst (fetchAll w st) = Inr combined
        \<and> filterByTeam (toLowerCase w) (toLowerCase w (team opt)) combined = Inr matching \<longrightarrow>
       matching = filter (\<lambda>g. matchesTeam (toLowerCase w) (toLowerCase w (team opt)) g = Inr True)
                    combined
       \<and> main w opt st =
         \<lparr>stdout = (if matching = []
                    then [''No games found for team matching '' @ dquote @ team opt @ dquote @ ''.'']
                    else (''All games for teams matching '' @ dquote @ team opt @ dquote
                            @ [CHR '':'', CHR 0x0A])
                           # map (gameRow w) (sortGames (engineSort w) (dateParse w) matching)),
          stderr = [], exitCode = 0, final = snd (fetchAll w st)\<rparr>"
    using main_team_only[of opt w st combined matching]
      filterByTeam_Inr[of "toLowerCase w" "toLowerCase w (team opt)" combined matching]
    by blast
  have d: "days opt = [] \<and> team opt \<noteq> [] \<and> \<not> clearCacheFlag opt
        \<and> fst (fetchAll w st) = Inr combined
        \<and> filterByTeam (toLowerCase w) (toLowerCase w (team opt)) combined = Inl e \<longrightarrow>
       main w opt st =
         \<lparr>stdout = [], stderr = [''Error: '' @ message e], exitCode = 0,
          final = snd (fetchAll w st)\<rparr>"
    using main_team_only_error[of opt w st combined e] by blast
  have m: "home g = Named h \<and> away g = Named a \<longrightarrow>
       matchesTeam (toLowerCase w) (toLowerCase w (team opt)) g
         = Inr (includesStr (toLowerCase w h) (toLowerCase w (team opt))
                \<or> includesStr (toLowerCase w a) (toLowerCase w (team opt)))"
    using matchesTeam_Named[of g h a "toLowerCase w" "toLowerCase w (team opt)"] by blast
  show ?thesis
    using main_default_eq[of w c st] chooseOffset_default[of c] a b c d m by blast
qed

theorem default_is_days_zero_witness:
  "fst (fetchAll onlineWorld emptyState)
      = Inr [toGame CFB None demoRecord, toGame NFL (Some (teamLookup asciiUpperCase demoTeams)) demoRecord]
   \<and> computeTargetDate (zone onlineWorld) (todayAtFilter onlineWorld) 0 = Inr ''2025-09-02''
   \<and> stdout (main onlineWorld \<lparr>days = [], team = [], clearCacheFlag = False\<rparr> emptyState)
      = [''Games for 2025-09-02'' @ [CHR '':'', CHR 0x0A],
         ''[2025-09-02 TUE][CFB] Navy @ Temple - 08:20 PM - Channel: NBC'',
         ''[2025-09-02 TUE][NFL] XYZ @ Philadelphia Eagles - 08:20 PM - Channel: NBC'']
   \<and> stdout (main onlineWorld \<lparr>days = ''0'', team = [], clearCacheFlag = False\<rparr> emptyState)
      = [''Games for 2025-09-02'' @ [CHR '':'', CHR 0x0A],
         ''[2025-09-02 TUE][CFB] Navy @ Temple - 08:20 PM - Channel: NBC'',
         ''[2025-09-02 TUE][NFL] XYZ @ Philadelphia Eagles - 08:20 PM - Channel: NBC'']
   \<and> computeTargetDate (zone otherDayWorld) (todayAtFilter otherDayWorld) 0 = Inr ''1970-01-01''
   \<and> stdout (main otherDayWorld \<lparr>days = [], team = [], clearCacheFlag = False\<rparr> emptyState)
      = [''No games found on day offset 0.'']
   \<and> stdout (main otherDayWorld \<lparr>days = [], team = ''EAGLES'', clearCacheFlag = False\<rparr> emptyState)
      = [''All games for teams matching '' @ dquote @ ''EAGLES'' @ dquote @ [CHR '':'', CHR 0x0A],
         ''[2025-09-02 TUE][NFL] XYZ @ Philadelphia Eagles - 08:20 PM - Channel: NBC'']"
proof -
  let ?d = "\<lparr>days = [], team = [], clearCacheFlag = False\<rparr>"
  let ?z = "\<lparr>days = ''0'', team = [], clearCacheFlag = False\<rparr>"
  let ?t = "\<lparr>days = [], team = ''EAGLES'', clearCacheFlag = False\<rparr>"
  let ?cfb = "toGame CFB None demoRecord"
  let ?nfl = "toGame NFL (Some (teamLookup asciiUpperCase demoTeams)) demoRecord"
  let ?rows = "[''[2025-09-02 TUE][CFB] Navy @ Temple - 08:20 PM - Channel: NBC'',
         ''[2025-09-02 TUE][NFL] XYZ @ Philadelphia Eagles - 08:20 PM - Channel: NBC'']"
  note inst = default_is_days_zero[where h = "[]" and a = "[]" and g = laterDayGame and e = RangeError]
  have fa: "fst (fetchAll onlineWorld emptyState) = Inr [?cfb, ?nfl]" by code_simp
  have fo: "fst (fetchAll otherDayWorld emptyState) = Inr [?cfb, ?nfl]" by code_simp
  have d1: "computeTargetDate (zone onlineWorld) (todayAtFilter onlineWorld) 0 = Inr ''2025-09-02''"
    by code_simp
  have d2: "computeTargetDate (zone onlineWorld) (todayAtLabel onlineWorld) 0 = Inr ''2025-09-02''"
    by code_simp
  have o1: "computeTargetDate (zone otherDayWorld) (todayAtFilter otherDayWorld) 0 = Inr ''1970-01-01''"
    by code_simp
  have o2: "computeTargetDate (zone otherDayWorld) (todayAtLabel otherDayWorld) 0 = Inr ''1970-01-01''"
    by code_simp
  have m1: "filter (matchesDate ''2025-09-02'') [?cfb, ?nfl] = [?cfb, ?nfl]" by code_simp
  have m2: "filter (matchesDate ''1970-01-01'') [?cfb, ?nfl] = []" by code_simp
  have rows: "map (gameRow onlineWorld)
        (sortGames (engineSort onlineWorld) (dateParse onlineWorld) [?cfb, ?nfl]) = ?rows"
    by code_simp
  have ft: "filterByTeam (toLowerCase otherDayWorld) (toLowerCase otherDayWorld (team ?t)) [?cfb, ?nfl]
      = Inr [?nfl]"
    by code_simp
  have row: "map (gameRow otherDayWorld)
        (sortGames (engineSort otherDayWorld) (dateParse otherDayWorld) [?nfl])
      = [''[2025-09-02 TUE][NFL] XYZ @ Philadelphia Eagles - 08:20 PM - Channel: NBC'']"
    by code_simp
  have a: "stdout (main onlineWorld ?d emptyState) = (''Games for 2025-09-02'' @ [CHR '':'', CHR 0x0A]) # ?rows"
  proof -
    from inst[where w = onlineWorld and st = emptyState and combined = "[?cfb, ?nfl]"
        and t = "''2025-09-02''" and t' = "''2025-09-02''" and c = False and opt = "?t"
        and matching = "[]"] fa d1 d2
    have "main onlineWorld ?d emptyState =
         \<lparr>stdout = (if filter (matchesDate ''2025-09-02'') [?cfb, ?nfl] = []
                    then [''No games found on day offset 0.'']
                    else (''Games for '' @ ''2025-09-02'' @ [CHR '':'', CHR 0x0A])
                           # map (gameRow onlineWorld)
                               (sortGames (engineSort onlineWorld) (dateParse onlineWorld)
                                  (filter (matchesDate ''2025-09-02'') [?cfb, ?nfl]))),
          stderr = [], exitCode = 0, final = snd (fetchAll onlineWorld emptyState)\<rparr>"
      by blast
    then show ?thesis unfolding m1 rows by simp
  qed
  have z: "stdout (main onlineWorld ?z emptyState) = (''Games for 2025-09-02'' @ [CHR '':'', CHR 0x0A]) # ?rows"
  proof -
    from inst[where w = onlineWorld and st = emptyState and combined = "[]"
        and t = "[]" and t' = "[]" and c = False and opt = "?t" and matching = "[]"]
    have "main onlineWorld ?d emptyState = main onlineWorld ?z emptyState" by blast
    with a show ?thesis by simp
  qed
  have b: "stdout (main otherDayWorld ?d emptyState) = [''No games found on day offset 0.'']"
  proof -
    from inst[where w = otherDayWorld and st = emptyState and combined = "[?cfb, ?nfl]"
        and t = "''1970-01-01''" and t' = "''1970-01-01''" and c = False and opt = "?t"
        and matching = "[]"] fo o1 o2
    have "main otherDayWorld ?d emptyState =
         \<lparr>stdout = (if filter (matchesDate ''1970-01-01'') [?cfb, ?nfl] = []
                    then [''No games found on day offset 0.'']
                    else (''Games for '' @ ''1970-01-01'' @ [CHR '':'', CHR 0x0A])
                           # map (gameRow otherDayWorld)
                               (sortGames (engineSort otherDayWorld) (dateParse otherDayWorld)
                                  (filter (matchesDate ''1970-01-01'') [?cfb, ?nfl]))),
          stderr = [], exitCode = 0, final = snd (fetchAll otherDayWorld emptyState)\<rparr>"
      by blast
    then show ?thesis unfolding m2 by simp
  qed
  have c: "stdout (main otherDayWorld ?t emptyState)
      = [''All games for teams matching '' @ dquote @ ''EAGLES'' @ dquote @ [CHR '':'', CHR 0x0A],
         ''[2025-09-02 TUE][NFL] XYZ @ Philadelphia Eagles - 08:20 PM - Channel: NBC'']"
  proof -
    have p: "days ?t = [] \<and> team ?t \<noteq> [] \<and> \<not> clearCacheFlag ?t" by simp
    from inst[where w = otherDayWorld and st = emptyState and combined = "[?cfb, ?nfl]"
        and t = "[]" and t' = "[]" and c = False and opt = "?t" and matching = "[?nfl]"] p fo ft
    have "main otherDayWorld ?t emptyState =
         \<lparr>stdout = (if [?nfl] = []
                    then [''No games found for team matching '' @ dquote @ team ?t @ dquote @ ''.'']
                    else (''All games for teams matching '' @ dquote @ team ?t @ dquote
                            @ [CHR '':'', CHR 0x0A])
                           # map (gameRow otherDayWorld)
                               (sortGames (engineSort otherDayWorld) (dateParse otherDayWorld) [?nfl])),
          stderr = [], exitCode = 0, final = snd (fetchAll otherDayWorld emptyState)\<rparr>"
      by blast
    then show ?thesis unfolding row by simp
  qed
  show ?thesis using fa d1 a z o1 b c by simp
qed

section \<open>Errors at the top level\<close>

lemma main_caught:
  assumes "\<not> clearCacheFlag opt" and "chooseOffset opt = Inr offset"
    and "fst (tryBlock w opt offset st) = Inl e"
  shows "main w opt st =
    \<lparr>stdout = [], stderr = [''Error: '' @ message e], exitCode = 0,
     final = snd (tryBlock w opt offset st)\<rparr>"
  using assms by (cases "tryBlock w opt offset st") (simp add: main_def caught_def)

lemma tryBlock_no_key:
  "\<not> truthy (API_KEY w) \<Longrightarrow> tryBlock w opt offset st = (Inl MissingApiKey, st)"
  by (auto simp: tryBlock_def fetchAll_def truthy_def split: option.splits)

lemma fetchNFLTeams_error:
  "fst (fetchWithCache (rt w) (NFL_TEAMS_URL key) ''nfl_teams.json'' st) = Inl e
     \<Longrightarrow> fst (fetchNFLTeams w key st) = Inl e"
  by (cases "fetchWithCache (rt w) (NFL_TEAMS_URL key) ''nfl_teams.json'' st")
     (simp add: fetchNFLTeams_def)

lemma fetchGames_error:
  "fst (fetchWithCache (rt w) url f s) = Inl e \<Longrightarrow> fst (fetchGames w url lg f lk s) = Inl e"
  by (cases "fetchWithCache (rt w) url f s") (simp add: fetchGames_def)

lemma tryBlock_teams_error:
  assumes "API_KEY w = Some key" and "key \<noteq> []"
    and "fst (fetchWithCache (rt w) (NFL_TEAMS_URL key) ''nfl_teams.json'' st) = Inl e"
  shows "fst (tryBlock w opt offset st) = Inl e"
proof -
  have "fst (fetchNFLTeams w key st) = Inl e" using assms(3) by (rule fetchNFLTeams_error)
  then show ?thesis using assms(1,2)
    by (cases "fetchNFLTeams w key st") (simp add: tryBlock_def fetchAll_def)
qed

lemma promiseAll_error:
  "isl r1 \<or> isl r2 \<Longrightarrow> \<exists>e. promiseAll b r1 r2 = Inl e \<and> (r1 = Inl e \<or> r2 = Inl e)"
  by (cases r1; cases r2) (auto simp: promiseAll_def)

lemma tryBlock_schedule_error:
  assumes "API_KEY w = Some key" and "key \<noteq> []"
    and "fetchNFLTeams w key st = (Inr lk, st1)"
    and "fetchGames w (CFB_URL key) CFB ''cfb_games.json'' None st1 = (r1, st2)"
    and "fetchGames w (NFL_URL key) NFL ''nfl_schedules.json'' (Some lk) st2 = (r2, st3)"
    and "isl r1 \<or> isl r2"
  shows "\<exists>e. tryBlock w opt offset st = (Inl e, st3) \<and> (r1 = Inl e \<or> r2 = Inl e)"
proof -
  from promiseAll_error[OF assms(6), of "nflSettlesFirst w"]
  obtain e where e: "promiseAll (nflSettlesFirst w) r1 r2 = Inl e" "r1 = Inl e \<or> r2 = Inl e"
    by blast
  have "tryBlock w opt offset st = (Inl e, st3)"
    using assms(1-5) e(1) by (simp add: tryBlock_def fetchAll_def)
  with e(2) show ?thesis by blast
qed

text \<open>
  Claim C8. After argument validation, an error thrown in the \<open>try\<close> block is caught at
  the top level: nothing is printed on the output stream, the error stream gets the one
  line \<open>Error: <message>\<close>, and the exit status is 0. The errors that reach it are the
  missing API key (before any request), an error of the team directory fetch, an error
  of either schedule fetch (each an error of \<open>fetchWithCache\<close>: network, HTTP status or
  parse), and an error thrown while filtering or rendering.
\<close>

theorem errors_caught_exit_zero:
  assumes "\<not> clearCacheFlag opt" and "chooseOffset opt = Inr offset"
  shows "(fst (tryBlock w opt offset st) = Inl e \<longrightarrow>
        main w opt st =
          \<lparr>stdout = [], stderr = [''Error: '' @ message e], exitCode = 0,
           final = snd (tryBlock w opt offset st)\<rparr>)
    \<and> (\<not> truthy (API_KEY w) \<longrightarrow> tryBlock w opt offset st = (Inl MissingApiKey, st))
    \<and> (API_KEY w = Some key \<and> key \<noteq> []
         \<and> fst (fetchWithCache (rt w) (NFL_TEAMS_URL key) ''nfl_teams.json'' st) = Inl e1
        \<longrightarrow> fst (tryBlock w opt offset st) = Inl e1)
    \<and> (API_KEY w = Some key \<and> key \<noteq> []
         \<and> fetchNFLTeams w key st = (Inr lk, st1)
         \<and> fetchGames w (CFB_URL key) CFB ''cfb_games.json'' None st1 = (r1, st2)
         \<and> fetchGames w (NFL_URL key) NFL ''nfl_schedules.json'' (Some lk) st2 = (r2, st3)
         \<and> (isl r1 \<or> isl r2)
        \<longrightarrow> (\<exists>e2. tryBlock w opt offset st = (Inl e2, st3) \<and> (r1 = Inl e2 \<or> r2 = Inl e2)))
    \<and> (fst (fetchWithCache (rt w) url f s) = Inl e3 \<longrightarrow> fst (fetchGames w url lg f lk' s) = Inl e3)
    \<and> (fst (fetchAll w st) = Inr combined \<and> report w opt offset combined = Inl e4
        \<longrightarrow> fst (tryBlock w opt offset st) = Inl e4)"
proof -
  have a: "fst (tryBlock w opt offset st) = Inl e \<longrightarrow>
        main w opt st =
          \<lparr>stdout = [], stderr = [''Error: '' @ message e], exitCode = 0,
           final = snd (tryBlock w opt offset st)\<rparr>"
    using main_caught[OF assms] by blast
  have b: "\<not> truthy (API_KEY w) \<longrightarrow> tryBlock w opt offset st = (Inl MissingApiKey, st)"
    using tryBlock_no_key by blast
  have c: "API_KEY w = Some key \<and> key \<noteq> []
         \<and> fst (fetchWithCache (rt w) (NFL_TEAMS_URL key) ''nfl_teams.json'' st) = Inl e1
        \<longrightarrow> fst (tryBlock w opt offset st) = Inl e1"
    using tryBlock_teams_error by blast
  have d: "API_KEY w = Some key \<and> key \<noteq> []
         \<and> fetchNFLTeams w key st = (Inr lk, st1)
         \<and> fetchGames w (CFB_URL key) CFB ''cfb_games.json'' None st1 = (r1, st2)
         \<and> fetchGames w (NFL_URL key) NFL ''nfl_schedules.json'' (Some lk) st2 = (r2, st3)
         \<and> (isl r1 \<or> isl r2)
        \<longrightarrow> (\<exists>e2. tryBlock w opt offset st = (Inl e2, st3) \<and> (r1 = Inl e2 \<or> r2 = Inl e2))"
    using tryBlock_schedule_error[of w key st lk st1 r1 st2 r2 st3 opt offset] by blast
  have f: "fst (fetchWithCache (rt w) url f s) = Inl e3 \<longrightarrow> fst (fetchGames w url lg f lk' s) = Inl e3"
    using fetchGames_error by blast
  have g: "fst (fetchAll w st) = Inr combined \<and> report w opt offset combined = Inl e4
        \<longrightarrow> fst (tryBlock w opt offset st) = Inl e4"
    by (cases "fetchAll w st") (simp add: tryBlock_def)
  show ?thesis using a b c d f g by blast
qed

theorem errors_caught_exit_zero_witness:
  "\<not> clearCacheFlag \<lparr>days = [], team = [], clearCacheFlag = False\<rparr>
   \<and> chooseOffset \<lparr>days = [], team = [], clearCacheFlag = False\<rparr> = Inr (Some 0)
   \<and> fst (tryBlock (demoWorld (Some ''k'') (Resolved \<lparr>status = 500, body = ''down''\<rparr>))
          \<lparr>days = [], team = [], clearCacheFlag = False\<rparr> (Some 0) emptyState)
       = Inl (HttpError 500 ''https://api.sportsdata.io/v3/nfl/scores/json/Teams?key=k'')
   \<and> stdout (main (demoWorld (Some ''k'') (Resolved \<lparr>status = 500, body = ''down''\<rparr>))
          \<lparr>days = [], team = [], clearCacheFlag = False\<rparr> emptyState) = []
   \<and> stderr (main (demoWorld (Some ''k'') (Resolved \<lparr>status = 500, body = ''down''\<rparr>))
          \<lparr>days = [], team = [], clearCacheFlag = False\<rparr> emptyState)
       = [''Error: HTTP 500 for https://api.sportsdata.io/v3/nfl/scores/json/Teams?key=k'']
   \<and> exitCode (main (demoWorld (Some ''k'') (Resolved \<lparr>status = 500, body = ''down''\<rparr>))
          \<lparr>days = [], team = [], clearCacheFlag = False\<rparr> emptyState) = 0"
proof -
  let ?w = "demoWorld (Some ''k'') (Resolved \<lparr>status = 500, body = ''down''\<rparr>)"
  let ?o = "\<lparr>days = [], team = [], clearCacheFlag = False\<rparr>"
  let ?e = "HttpError 500 ''https://api.sportsdata.io/v3/nfl/scores/json/Teams?key=k''"
  have h1: "\<not> clearCacheFlag ?o" by simp
  have h2: "chooseOffset ?o = Inr (Some 0)" by (simp add: chooseOffset_def)
  have t: "fst (tryBlock ?w ?o (Some 0) emptyState) = Inl ?e" by code_simp
  have sh: "showNat 500 = ''500''" by code_simp
  have "main ?w ?o emptyState =
      \<lparr>stdout = [], stderr = [''Error: '' @ message ?e], exitCode = 0,
       final = snd (tryBlock ?w ?o (Some 0) emptyState)\<rparr>"
    by (rule errors_caught_exit_zero[OF h1 h2, where w = "?w" and st = emptyState and e = "?e"
          and key = "[]" and ?e1.0 = "?e" and lk = Map.empty and ?st1.0 = emptyState
          and ?r1.0 = "Inl ?e" and ?st2.0 = emptyState and ?r2.0 = "Inl ?e" and ?st3.0 = emptyState
          and url = "[]" and f = "[]" and s = emptyState and ?e3.0 = "?e" and lg = CFB and lk' = None
          and combined = "[]" and ?e4.0 = "?e", THEN conjunct1, rule_format, OF t])
  then have "stdout (main ?w ?o emptyState) = []
      \<and> stderr (main ?w ?o emptyState) = [''Error: '' @ message ?e]
      \<and> exitCode (main ?w ?o emptyState) = 0"
    by simp
  then show ?thesis using h1 h2 t by (simp add: sh)
qed

section \<open>The empty result\<close>

lemma offset_named:
  assumes "chooseOffset opt = Inr offset" and "team opt = []"
  shows "\<exists>n. offset = Some n"
proof (cases "days opt = []")
  case True
  with assms have "offset = Some 0" by (simp add: chooseOffset_def)
  then show ?thesis by blast
next
  case False
  show ?thesis
  proof (cases "parseInt (days opt)")
    case None
    with False assms show ?thesis by (simp add: chooseOffset_def)
  next
    case (Some n)
    with False assms have "offset = Some n" by (simp add: chooseOffset_def)
    then show ?thesis by blast
  qed
qed

lemma main_empty:
  assumes "\<not> clearCacheFlag opt" and "chooseOffset opt = Inr offset"
    and "fst (fetchAll w st) = Inr combined" and "selectGames w opt offset combined = Inr []"
  shows "main w opt st =
    \<lparr>stdout = [noGamesLine opt offset], stderr = [], exitCode = 0, final = snd (fetchAll w st)\<rparr>"
  using assms by (cases "fetchAll w st") (simp add: main_def tryBlock_def report_def)

text \<open>
  Claim C9. When the fetches succeed and the filtered sequence is empty, the program
  prints exactly one line and nothing else (no header, no rows, nothing on the error
  stream) and exits with status 0. The line names the filters that were active: the team
  substring when one was given, the day offset when one was given or defaulted; at least
  one of them always is.
\<close>

theorem empty_result_single_line:
  assumes "\<not> clearCacheFlag opt" and "chooseOffset opt = Inr offset"
    and "fst (fetchAll w st) = Inr combined" and "selectGames w opt offset combined = Inr []"
  shows "main w opt st =
      \<lparr>stdout = [noGamesLine opt offset], stderr = [], exitCode = 0, final = snd (fetchAll w st)\<rparr>
    \<and> (team opt = [] \<longrightarrow>
         (\<exists>n. offset = Some n
            \<and> noGamesLine opt offset = ''No games found on day offset '' @ showInt n @ ''.''))
    \<and> (team opt \<noteq> [] \<and> offset = None \<longrightarrow>
         noGamesLine opt offset
           = ''No games found for team matching '' @ dquote @ team opt @ dquote @ ''.'')
    \<and> (team opt \<noteq> [] \<and> offset = Some k \<longrightarrow>
         noGamesLine opt offset
           = ''No games found for team matching '' @ dquote @ team opt @ dquote
               @ '' on day offset '' @ showInt k @ ''.'')"
proof -
  have a: "team opt = [] \<longrightarrow>
         (\<exists>n. offset = Some n
            \<and> noGamesLine opt offset = ''No games found on day offset '' @ showInt n @ ''.'')"
    using offset_named[OF assms(2)] by (auto simp: noGamesLine_def)
  have b: "team opt \<noteq> [] \<and> offset = None \<longrightarrow>
         noGamesLine opt offset
           = ''No games found for team matching '' @ dquote @ team opt @ dquote @ ''.''"
    by (simp add: noGamesLine_def)
  have c: "team opt \<noteq> [] \<and> offset = Some k \<longrightarrow>
         noGamesLine opt offset
           = ''No games found for team matching '' @ dquote @ team opt @ dquote
               @ '' on day offset '' @ showInt k @ ''.''"
    by (simp add: noGamesLine_def)
  show ?thesis using main_empty[OF assms] a b c by blast
qed

theorem empty_result_single_line_witness:
  "\<not> clearCacheFlag \<lparr>days = [], team = ''zzzz'', clearCacheFlag = False\<rparr>
   \<and> chooseOffset \<lparr>days = [], team = ''zzzz'', clearCacheFlag = False\<rparr> = Inr None
   \<and> fst (fetchAll onlineWorld emptyState)
       = Inr [toGame CFB None demoRecord, toGame NFL (Some (teamLookup asciiUpperCase demoTeams)) demoRecord]
   \<and> selectGames onlineWorld \<lparr>days = [], team = ''zzzz'', clearCacheFlag = False\<rparr> None
        [toGame CFB None demoRecord, toGame NFL (Some (teamLookup asciiUpperCase demoTeams)) demoRecord] = Inr []
   \<and> stdout (main onlineWorld \<lparr>days = [], team = ''zzzz'', clearCacheFlag = False\<rparr> emptyState)
       = [''No games found for team matching '' @ dquote @ ''zzzz'' @ dquote @ ''.'']
   \<and> stderr (main onlineWorld \<lparr>days = [], team = ''zzzz'', clearCacheFlag = False\<rparr> emptyState) = []
   \<and> exitCode (main onlineWorld \<lparr>days = [], team = ''zzzz'', clearCacheFlag = False\<rparr> emptyState) = 0"
proof -
  let ?o = "\<lparr>days = [], team = ''zzzz'', clearCacheFlag = False\<rparr>"
  let ?gs = "[toGame CFB None demoRecord, toGame NFL (Some (teamLookup asciiUpperCase demoTeams)) demoRecord]"
  have h1: "\<not> clearCacheFlag ?o" by simp
  have h2: "chooseOffset ?o = Inr None" by (simp add: chooseOffset_def)
  have h3: "fst (fetchAll onlineWorld emptyState) = Inr ?gs" by code_simp
  have h4: "selectGames onlineWorld ?o None ?gs = Inr []" by code_simp
  have l: "noGamesLine ?o None = ''No games found for team matching '' @ dquote @ ''zzzz'' @ dquote @ ''.''"
    by (simp add: noGamesLine_def)
  have "main onlineWorld ?o emptyState =
      \<lparr>stdout = [noGamesLine ?o None], stderr = [], exitCode = 0,
       final = snd (fetchAll onlineWorld emptyState)\<rparr>"
    by (rule empty_result_single_line[OF h1 h2 h3 h4, where k = 0, THEN conjunct1])
  then have "stdout (main onlineWorld ?o emptyState) = [noGamesLine ?o None]
      \<and> stderr (main onlineWorld ?o emptyState) = []
      \<and> exitCode (main onlineWorld ?o emptyState) = 0"
    by simp
  then show ?thesis using h1 h2 h3 h4 by (simp add: l)
qed

end
